theory Spec2Isabelle
  imports Main "HOL-Library.Word"
begin

unbundle bit_operations_syntax

section \<open>Bytes and strings\<close>

text \<open>
  A Go \<^verbatim>\<open>string\<close> is an immutable sequence of bytes and a \<^verbatim>\<open>[]byte\<close> a mutable one.
  Strings are modelled as \<^typ>\<open>string\<close> (a list of 8-bit characters), byte slices as
  lists of \<^typ>\<open>8 word\<close>. The conversion \<^verbatim>\<open>[]byte(s)\<close> is \<open>bytes_of_string\<close>, the
  conversion \<^verbatim>\<open>string(b)\<close> (and \<^verbatim>\<open>bytes.Buffer.String\<close>) is \<open>string_of_bytes\<close>.
\<close>

type_synonym byte = "8 word"

definition bytes_of_string :: "string \<Rightarrow> byte list" where
  "bytes_of_string s = map of_char s"

definition string_of_bytes :: "byte list \<Rightarrow> string" where
  "string_of_bytes bs = map (\<lambda>b. char_of (unat b)) bs"

section \<open>encoding/base64, the standard padded encoding\<close>

text \<open>
  \<^verbatim>\<open>base64.StdEncoding\<close>: the alphabet of RFC 4648, padding character \<^verbatim>\<open>=\<close>, not strict.
  \<open>EncodeToString\<close> follows \<^verbatim>\<open>Encoding.Encode\<close>: three source bytes are packed into
  a \<^verbatim>\<open>uint\<close> and cut into four 6-bit indices; a remainder of one or two bytes is padded.
\<close>

definition encodeStd :: string where
  "encodeStd = ''ABCDEFGHIJKLMNOPQRSTUVWXYZabcdefghijklmnopqrstuvwxyz0123456789+/''"

definition encode :: "64 word \<Rightarrow> char" where
  "encode v = encodeStd ! unat v"

fun EncodeToString :: "byte list \<Rightarrow> string" where
  "EncodeToString [] = []"
| "EncodeToString [a] =
     (let val = push_bit 16 (ucast a :: 64 word)
      in [encode (drop_bit 18 val AND 0x3F), encode (drop_bit 12 val AND 0x3F),
          CHR ''='', CHR ''=''])"
| "EncodeToString [a, b] =
     (let val = push_bit 16 (ucast a :: 64 word) OR push_bit 8 (ucast b)
      in [encode (drop_bit 18 val AND 0x3F), encode (drop_bit 12 val AND 0x3F),
          encode (drop_bit 6 val AND 0x3F), CHR ''=''])"
| "EncodeToString (a # b # c # src) =
     (let val = push_bit 16 (ucast a :: 64 word) OR push_bit 8 (ucast b) OR ucast c
      in [encode (drop_bit 18 val AND 0x3F), encode (drop_bit 12 val AND 0x3F),
          encode (drop_bit 6 val AND 0x3F), encode (val AND 0x3F)] @ EncodeToString src)"

text \<open>
  \<open>decodeMap\<close> is the 256-entry table of the encoding: the index of a character of the
  alphabet, \<^verbatim>\<open>0xff\<close> for every other byte.
\<close>

fun index_of :: "char \<Rightarrow> string \<Rightarrow> nat \<Rightarrow> nat option" where
  "index_of c [] i = None"
| "index_of c (x # xs) i = (if x = c then Some i else index_of c xs (Suc i))"

definition decodeMap :: "char \<Rightarrow> byte" where
  "decodeMap c = (case index_of c encodeStd 0 of None \<Rightarrow> 0xFF | Some i \<Rightarrow> of_nat i)"

text \<open>
  The tail of \<^verbatim>\<open>decodeQuantum\<close>: the \<open>dlen\<close> collected 6-bit values (missing ones are
  zero) are packed into a \<^verbatim>\<open>uint\<close> and the first \<open>dlen - 1\<close> of its three bytes are
  written. The encoding is not strict, so the unused low bits are not checked.
\<close>

definition assemble :: "byte list \<Rightarrow> byte list" where
  "assemble dbuf =
     (let d = map ucast (dbuf @ replicate (4 - length dbuf) 0) :: 64 word list;
          val = push_bit 18 (d ! 0) OR push_bit 12 (d ! 1) OR push_bit 6 (d ! 2) OR (d ! 3)
      in take (length dbuf - 1) [ucast (drop_bit 16 val), ucast (drop_bit 8 val), ucast val])"

fun skipNewlines :: "string \<Rightarrow> string" where
  "skipNewlines [] = []"
| "skipNewlines (c # cs) =
     (if c = CHR 0x0A \<or> c = CHR 0x0D then skipNewlines cs else c # cs)"

text \<open>
  What \<^verbatim>\<open>decodeQuantum\<close> does once it has read a padding character with \<open>dbuf\<close>
  collected and \<open>rest\<close> still unread: padding after fewer than two values is corrupt;
  after two values a second \<^verbatim>\<open>=\<close> must follow (newlines skipped); after the padding only
  newlines may follow (anything else is trailing garbage).
\<close>

definition padding :: "byte list \<Rightarrow> string \<Rightarrow> byte list option" where
  "padding dbuf rest =
     (if length dbuf < 2 then None
      else if length dbuf = 2 then
        (case skipNewlines rest of
           [] \<Rightarrow> None
         | c # rest' \<Rightarrow>
             if c \<noteq> CHR ''='' then None
             else if skipNewlines rest' \<noteq> [] then None
             else Some (assemble dbuf))
      else if skipNewlines rest \<noteq> [] then None
      else Some (assemble dbuf))"

text \<open>
  \<^verbatim>\<open>Encoding.Decode\<close> calls \<^verbatim>\<open>decodeQuantum\<close> until the source is used up; the two
  loops are one recursion here, over the unread source, with the values collected for
  the current quantum in \<open>dbuf\<close>. \<open>None\<close> is a \<^verbatim>\<open>CorruptInputError\<close>: the source ends
  inside a quantum (the encoding is padded), or holds a byte that is neither of the
  alphabet, nor a newline, nor well-placed padding. Carriage returns and line feeds are
  skipped wherever they stand.
\<close>

fun Decode :: "byte list \<Rightarrow> string \<Rightarrow> byte list option" where
  "Decode dbuf [] = (if dbuf = [] then Some [] else None)"
| "Decode dbuf (c # src) =
     (let out = decodeMap c in
      if out \<noteq> 0xFF then
        (if length dbuf = 3
         then map_option (\<lambda>bs. assemble (dbuf @ [out]) @ bs) (Decode [] src)
         else Decode (dbuf @ [out]) src)
      else if c = CHR 0x0A \<or> c = CHR 0x0D then Decode dbuf src
      else if c \<noteq> CHR ''='' then None
      else padding dbuf src)"

definition DecodeString :: "string \<Rightarrow> byte list option" where
  "DecodeString s = Decode [] s"

text \<open>The 6-bit value that stands \<open>n\<close> bits up in a packed word, as a byte.\<close>

definition sextet :: "nat \<Rightarrow> 64 word \<Rightarrow> byte" where
  "sextet n w = ucast (drop_bit n w AND 0x3F)"

section \<open>net/http headers\<close>

text \<open>
  \<^verbatim>\<open>http.Header\<close> is \<^verbatim>\<open>map[string][]string\<close>. A header that may be \<^verbatim>\<open>nil\<close> is an
  \<open>option\<close> of the map. \<open>validHeaderFieldByte\<close> is the token table of
  \<^verbatim>\<open>net/textproto\<close>; the same table decides which method strings \<^verbatim>\<open>net/http\<close> accepts.
\<close>

type_synonym http_header = "string \<rightharpoonup> string list"

definition isLower :: "char \<Rightarrow> bool" where
  "isLower c = (let n = of_char c :: nat in 97 \<le> n \<and> n \<le> 122)"

definition isUpper :: "char \<Rightarrow> bool" where
  "isUpper c = (let n = of_char c :: nat in 65 \<le> n \<and> n \<le> 90)"

definition isDigit :: "char \<Rightarrow> bool" where
  "isDigit c = (let n = of_char c :: nat in 48 \<le> n \<and> n \<le> 57)"

definition validHeaderFieldByte :: "char \<Rightarrow> bool" where
  "validHeaderFieldByte c =
     (isDigit c \<or> isLower c \<or> isUpper c \<or>
      c \<in> set [CHR ''!'', CHR ''#'', CHR ''$'', CHR ''%'', CHR ''&'', CHR 0x27, CHR ''*'',
                 CHR ''+'', CHR ''-'', CHR ''.'', CHR ''^'', CHR ''_'', CHR 0x60, CHR ''|'',
                 CHR ''~''])"

text \<open>
  \<^verbatim>\<open>textproto.CanonicalMIMEHeaderKey\<close>: a key with a byte outside the token table is
  returned unchanged; otherwise the first letter and every letter after a hyphen is made
  upper case and every other letter lower case.
\<close>

fun canonicalMIMEHeaderKey :: "bool \<Rightarrow> string \<Rightarrow> string" where
  "canonicalMIMEHeaderKey upper [] = []"
| "canonicalMIMEHeaderKey upper (c # a) =
     (let c' = (if upper \<and> isLower c then char_of (of_char c - (32::nat))
                else if \<not> upper \<and> isUpper c then char_of (of_char c + (32::nat))
                else c)
      in c' # canonicalMIMEHeaderKey (c' = CHR ''-'') a)"

definition CanonicalMIMEHeaderKey :: "string \<Rightarrow> string" where
  "CanonicalMIMEHeaderKey s =
     (if list_all validHeaderFieldByte s then canonicalMIMEHeaderKey True s else s)"

text \<open>
  \<open>entry h key\<close> is the map index \<^verbatim>\<open>h[key]\<close>, the \<^verbatim>\<open>nil\<close> slice for a key that is not
  there. \<open>Add\<close> appends to the entry of the canonical key; \<open>Values\<close> and \<open>Get\<close> read
  the entry of the canonical key, \<open>Get\<close> its first value or the empty string.
\<close>

definition entry :: "http_header \<Rightarrow> string \<Rightarrow> string list" where
  "entry h key = (case h key of None \<Rightarrow> [] | Some vs \<Rightarrow> vs)"

definition Add :: "string \<Rightarrow> string \<Rightarrow> http_header \<Rightarrow> http_header" where
  "Add key val h =
     (let key' = CanonicalMIMEHeaderKey key
      in h(key' \<mapsto> entry h key' @ [val]))"

definition Values :: "http_header option \<Rightarrow> string \<Rightarrow> string list" where
  "Values h key =
     (case h of
        None \<Rightarrow> []
      | Some m \<Rightarrow> entry m (CanonicalMIMEHeaderKey key))"

definition Get :: "http_header option \<Rightarrow> string \<Rightarrow> string" where
  "Get h key =
     (case h of
        None \<Rightarrow> []
      | Some m \<Rightarrow>
          (case entry m (CanonicalMIMEHeaderKey key) of
             [] \<Rightarrow> []
           | v # _ \<Rightarrow> v))"

section \<open>Startup configuration\<close>

datatype Mode = HttpMode | LambdaMode

record Config =
  Mode :: Mode
  HttpAddr :: string

datatype config_error = IncorrectMode string | MissingAddr

text \<open>
  The process environment is a map from names to values: \<^verbatim>\<open>os.LookupEnv\<close> is the map
  itself, \<^verbatim>\<open>os.Getenv\<close> gives the empty string for an unset name.
\<close>

type_synonym environ = "string \<rightharpoonup> string"

definition Getenv :: "environ \<Rightarrow> string \<Rightarrow> string" where
  "Getenv env key = (case env key of None \<Rightarrow> [] | Some v \<Rightarrow> v)"

definition LookupEnv :: "environ \<Rightarrow> string \<Rightarrow> string option" where
  "LookupEnv env key = env key"

text \<open>
  \<open>ConfigFromEnv\<close>. \<^verbatim>\<open>strings.ToLower\<close> and \<^verbatim>\<open>strings.TrimSpace\<close> work on Unicode text;
  they are parameters \<open>ToLower\<close> and \<open>TrimSpace\<close> of the model. The \<^verbatim>\<open>switch\<close> sets the
  mode of a zero \<open>Config\<close> (whose mode is \<open>HttpMode\<close>, the first constant) or returns
  the error of its default case; the address is looked up in HTTP mode only.
\<close>

definition ConfigFromEnv ::
  "(string \<Rightarrow> string) \<Rightarrow> (string \<Rightarrow> string) \<Rightarrow> environ \<Rightarrow> config_error + Config" where
  "ConfigFromEnv ToLower TrimSpace env =
     (let config = \<lparr>Mode = HttpMode, HttpAddr = []\<rparr>;
          mode = ToLower (TrimSpace (Getenv env ''CONNECT_SERVER_MODE''))
      in case (if mode = ''lambda'' then Inr (config\<lparr>Mode := LambdaMode\<rparr>)
               else if mode = [] \<or> mode = ''http'' then Inr (config\<lparr>Mode := HttpMode\<rparr>)
               else Inl (IncorrectMode mode)) of
           Inl e \<Rightarrow> Inl e
         | Inr config \<Rightarrow>
             if Mode config = HttpMode then
               (case LookupEnv env ''CONNECT_SERVER_ADDR'' of
                  None \<Rightarrow> Inl MissingAddr
                | Some addr \<Rightarrow> Inr (config\<lparr>HttpAddr := TrimSpace addr\<rparr>))
             else Inr config)"

text \<open>
  The two string functions on ASCII text, where they are what the Go functions are:
  upper-case letters become lower case, and tab, line feed, vertical tab, form feed,
  carriage return and space are trimmed at both ends.
\<close>

definition ascii_ToLower :: "string \<Rightarrow> string" where
  "ascii_ToLower s = map (\<lambda>c. if isUpper c then char_of (of_char c + (32::nat)) else c) s"

definition asciiSpace :: "char \<Rightarrow> bool" where
  "asciiSpace c = (c \<in> set [CHR 0x09, CHR 0x0A, CHR 0x0B, CHR 0x0C, CHR 0x0D, CHR 0x20])"

definition ascii_TrimSpace :: "string \<Rightarrow> string" where
  "ascii_TrimSpace s = rev (dropWhile asciiSpace (rev (dropWhile asciiSpace s)))"

section \<open>The proxy envelopes\<close>

text \<open>
  \<open>ProxyRequest\<close> and \<open>ProxyResponse\<close>, the JSON messages of the Lambda proxy
  integration. Values of type \<^verbatim>\<open>any\<close> are values of a type \<open>'j\<close>. The maps of the
  request are association lists with distinct keys, in the order in which this run's
  \<^verbatim>\<open>range\<close> visits them (Go does not fix that order); a \<^verbatim>\<open>nil\<close> map is the empty list.
  The fields of \<open>ProxyResponse\<close> carry the prefix \<open>resp_\<close> and those of the request
  below the prefix \<open>req_\<close>, since \<open>Body\<close> and \<open>Base64\<close> name fields of \<open>ProxyRequest\<close>.
\<close>

record 'j ProxyRequest =
  Resource :: string
  Path :: string
  HttpMethod :: string
  Headers :: "(string \<times> string) list"
  MultiValueHeaders :: "(string \<times> string list) list"
  QueryStringParameters :: "(string \<times> string) list"
  MultiValueQueryStringParameters :: "(string \<times> string list) list"
  PathParameters :: 'j
  StageVariables :: 'j
  Body :: string
  Base64 :: bool
  RequestContext :: "(string \<times> 'j) list"

record ProxyResponse =
  resp_Base64 :: bool
  resp_Status :: int
  resp_Header :: "http_header option"
  resp_Body :: string

definition StatusOK :: int where "StatusOK = 200"
definition StatusBadRequest :: int where "StatusBadRequest = 400"
definition StatusInternalServerError :: int where "StatusInternalServerError = 500"

text \<open>\<open>errorResponse\<close> sets three fields; the flag keeps its zero value.\<close>

definition errorResponse :: "int \<Rightarrow> string \<Rightarrow> ProxyResponse" where
  "errorResponse status msg =
     \<lparr>resp_Base64 = False,
      resp_Status = status,
      resp_Header = Some [''Content-Type'' \<mapsto> [''text/plain'']],
      resp_Body = msg\<rparr>"

section \<open>The synthetic request\<close>

text \<open>
  The fields of \<^verbatim>\<open>http.Request\<close> that \<open>handleLambdaReq\<close> sets: the context, the method,
  the parsed URL (a value of a type \<open>'u\<close>), the header and the bytes its body reader
  yields. \<^verbatim>\<open>http.NewRequestWithContext\<close> refuses a method that is not a token (an empty
  method stands for GET), a \<^verbatim>\<open>nil\<close> context (\<open>None\<close>), and a URL that \<^verbatim>\<open>url.Parse\<close>
  refuses. \<^verbatim>\<open>url.Parse\<close> is the parameter \<open>parse\<close>, with the text of its error on the
  left.
\<close>

record ('c, 'u) Request =
  req_ctx :: 'c
  req_Method :: string
  req_URL :: 'u
  req_Header :: http_header
  req_Body :: "byte list"

datatype go_error = InvalidMethod string | NilContext | UrlError string

definition validMethod :: "string \<Rightarrow> bool" where
  "validMethod method = (length method > 0 \<and> list_all validHeaderFieldByte method)"

definition NewRequestWithContext ::
  "(string \<Rightarrow> string + 'u) \<Rightarrow> 'c option \<Rightarrow> string \<Rightarrow> string \<Rightarrow> byte list
     \<Rightarrow> go_error + ('c, 'u) Request" where
  "NewRequestWithContext parse ctx method url body =
     (let method = (if method = [] then ''GET'' else method) in
      if \<not> validMethod method then Inl (InvalidMethod method)
      else case ctx of
        None \<Rightarrow> Inl NilContext
      | Some c \<Rightarrow>
          (case parse url of
             Inl e \<Rightarrow> Inl (UrlError e)
           | Inr u \<Rightarrow>
               Inr \<lparr>req_ctx = c, req_Method = method, req_URL = u,
                    req_Header = Map.empty, req_Body = body\<rparr>))"

text \<open>
  An instance of the parser for running the model: the targets it accepts, an absolute
  path of letters, digits, hyphens, dots, underscores and slashes that does not begin
  with two slashes, are targets \<^verbatim>\<open>url.Parse\<close> accepts; the URL is kept as its text.
\<close>

definition pathByte :: "char \<Rightarrow> bool" where
  "pathByte c =
     (isDigit c \<or> isLower c \<or> isUpper c \<or> c \<in> set [CHR ''-'', CHR ''.'', CHR ''_'', CHR ''/''])"

definition parse_path :: "string \<Rightarrow> string + string" where
  "parse_path url =
     (case url of
        [] \<Rightarrow> Inl ''not an absolute path''
      | c # rest \<Rightarrow>
          if c = CHR ''/'' \<and> list_all pathByte rest \<and> take 1 rest \<noteq> ''/''
          then Inr url else Inl ''not an absolute path'')"

section \<open>The response buffer\<close>

record ResponseBuffer =
  statusCode :: int
  header :: "http_header option"
  buf :: "byte list"
  wroteHeader :: bool

text \<open>The zero value \<^verbatim>\<open>&ResponseBuffer{}\<close>.\<close>

definition Fresh :: ResponseBuffer where
  "Fresh = \<lparr>statusCode = 0, header = None, buf = [], wroteHeader = False\<rparr>"

text \<open>\<open>Header\<close> returns the map, which it allocates when there is none, and the buffer.\<close>

definition Header :: "ResponseBuffer \<Rightarrow> http_header \<times> ResponseBuffer" where
  "Header o' =
     (case header o' of
        None \<Rightarrow> (Map.empty, o'\<lparr>header := Some Map.empty\<rparr>)
      | Some m \<Rightarrow> (m, o'))"

definition WriteHeader :: "int \<Rightarrow> ResponseBuffer \<Rightarrow> ResponseBuffer" where
  "WriteHeader code o' =
     (if wroteHeader o' then o' else o'\<lparr>statusCode := code, wroteHeader := True\<rparr>)"

text \<open>
  \<^verbatim>\<open>bytes.Buffer.Write\<close> appends and returns the length written; its error is always
  \<^verbatim>\<open>nil\<close>. \<open>Write\<close> returns the buffer, the count and the error.
\<close>

definition Buffer_Write :: "byte list \<Rightarrow> byte list \<Rightarrow> byte list \<times> int \<times> go_error option" where
  "Buffer_Write b p = (b @ p, int (length p), None)"

definition Write :: "byte list \<Rightarrow> ResponseBuffer \<Rightarrow> ResponseBuffer \<times> int \<times> go_error option" where
  "Write bytes o' =
     (let o1 = (if \<not> wroteHeader o' then WriteHeader StatusOK o' else o');
          o2 = (if statusCode o1 = 0 then o1\<lparr>statusCode := StatusOK\<rparr> else o1)
      in case Buffer_Write (buf o2) bytes of
           (b, _, Some e) \<Rightarrow> (o2\<lparr>buf := b\<rparr>, 0, Some e)
         | (b, _, None) \<Rightarrow> (o2\<lparr>buf := b\<rparr>, int (length bytes), None))"

definition ToLambdaProxyResponse :: "ResponseBuffer \<Rightarrow> ProxyResponse" where
  "ToLambdaProxyResponse o' =
     (let useBase64 = (Get (header o') ''Content-Type'' \<noteq> ''application/json'');
          body = (if useBase64 then EncodeToString (buf o') else string_of_bytes (buf o'))
      in \<lparr>resp_Base64 = useBase64,
          resp_Status = statusCode o',
          resp_Header = header o',
          resp_Body = body\<rparr>)"

section \<open>The wrapped handler\<close>

text \<open>
  A handler sees the request and the three methods of the \<^verbatim>\<open>http.ResponseWriter\<close>. What
  it does to the buffer is the list of its calls, in order: \<open>Header_call f\<close> is a call of
  \<^verbatim>\<open>Header()\<close> whose map the handler changes by \<open>f\<close> (\<^verbatim>\<open>Set\<close>, \<^verbatim>\<open>Add\<close>, \<^verbatim>\<open>Del\<close>, an
  assignment); \<open>WriteHeader_call\<close> and \<open>Write_call\<close> are the two other methods. The
  handler \<open>mux\<close> maps the request to these calls.
\<close>

datatype call =
  Header_call "http_header \<Rightarrow> http_header"
| WriteHeader_call int
| Write_call "byte list"

fun perform :: "call \<Rightarrow> ResponseBuffer \<Rightarrow> ResponseBuffer" where
  "perform (Header_call f) o' = (case Header o' of (m, o1) \<Rightarrow> o1\<lparr>header := Some (f m)\<rparr>)"
| "perform (WriteHeader_call code) o' = WriteHeader code o'"
| "perform (Write_call bytes) o' = fst (Write bytes o')"

fun ServeHTTP :: "call list \<Rightarrow> ResponseBuffer \<Rightarrow> ResponseBuffer" where
  "ServeHTTP [] o' = o'"
| "ServeHTTP (c # cs) o' = ServeHTTP cs (perform c o')"

section \<open>handleLambdaReq\<close>

text \<open>The two loops that copy the headers of the envelope into the request.\<close>

fun addHeaders :: "(string \<times> string) list \<Rightarrow> http_header \<Rightarrow> http_header" where
  "addHeaders [] h = h"
| "addHeaders ((k, v) # kvs) h = addHeaders kvs (Add k v h)"

fun addValues :: "string \<Rightarrow> string list \<Rightarrow> http_header \<Rightarrow> http_header" where
  "addValues k [] h = h"
| "addValues k (v # s) h = addValues k s (Add k v h)"

fun addMultiValueHeaders :: "(string \<times> string list) list \<Rightarrow> http_header \<Rightarrow> http_header" where
  "addMultiValueHeaders [] h = h"
| "addMultiValueHeaders ((k, s) # kss) h = addMultiValueHeaders kss (addValues k s h)"

text \<open>
  What one call of \<open>handleLambdaReq\<close> does: the envelope and the error it returns, the
  messages it gives to the logger (\<open>Logf fmt e\<close> is the format \<open>fmt\<close> with the error \<open>e\<close>
  for its \<^verbatim>\<open>%v\<close>), and the requests it passes to the handler.
\<close>

datatype log_msg = Log string | Logf string go_error

record ('c, 'u) outcome =
  response :: ProxyResponse
  err :: "go_error option"
  logged :: "log_msg list"
  served :: "('c, 'u) Request list"

text \<open>
  The body of the request: the decoded bytes when the envelope says the body is base64
  (\<open>None\<close> when it does not decode), the bytes of the text otherwise.
\<close>

definition bodyBytes :: "'j ProxyRequest \<Rightarrow> byte list option" where
  "bodyBytes preq =
     (if Base64 preq then DecodeString (Body preq) else Some (bytes_of_string (Body preq)))"

definition handleLambdaReq ::
  "(string \<Rightarrow> string + 'u) \<Rightarrow> (('c, 'u) Request \<Rightarrow> call list) \<Rightarrow> 'c option
     \<Rightarrow> 'j ProxyRequest \<Rightarrow> ('c, 'u) outcome" where
  "handleLambdaReq parse mux ctx preq =
     (let url = Path preq in
      case bodyBytes preq of
        None \<Rightarrow>
          \<lparr>response = errorResponse StatusBadRequest ''could not decode body'',
           err = None,
           logged = [Log ''could not decode body as base64''],
           served = []\<rparr>
      | Some bs \<Rightarrow>
          (case NewRequestWithContext parse ctx (HttpMethod preq) url bs of
             Inl e \<Rightarrow>
               \<lparr>response = errorResponse StatusBadRequest
                   ''could not create request, check url and http method'',
                err = None,
                logged = [Logf ''could not create request : %v'' e],
                served = []\<rparr>
           | Inr req0 \<Rightarrow>
               (let req = req0\<lparr>req_Header :=
                            addMultiValueHeaders (MultiValueHeaders preq)
                              (addHeaders (Headers preq) (req_Header req0))\<rparr>;
                    buf = ServeHTTP (mux req) Fresh
                in if \<not> wroteHeader buf then
                     \<lparr>response = errorResponse StatusInternalServerError
                         ''internal server error'',
                      err = None,
                      logged = [Log ''HTTP handler returned without writing a header or body''],
                      served = [req]\<rparr>
                   else
                     \<lparr>response = ToLambdaProxyResponse buf,
                      err = None,
                      logged = [],
                      served = [req]\<rparr>)))"

section \<open>What a list of calls amounts to\<close>

text \<open>
  \<open>headerOnly\<close> holds of a call of \<^verbatim>\<open>Header()\<close>, the one call that leaves the one-shot
  flag alone; \<open>written\<close> is the bytes the calls write, in order.
\<close>

fun headerOnly :: "call \<Rightarrow> bool" where
  "headerOnly (Header_call f) = True"
| "headerOnly (WriteHeader_call code) = False"
| "headerOnly (Write_call bytes) = False"

fun written :: "call list \<Rightarrow> byte list" where
  "written [] = []"
| "written (Header_call f # cs) = written cs"
| "written (WriteHeader_call code # cs) = written cs"
| "written (Write_call bytes # cs) = bytes @ written cs"

text \<open>
  The agreement of flag and body in an outbound envelope whose content is the bytes
  \<open>raw\<close>: the body is their base64 encoding when the flag is set, their text otherwise.
\<close>

definition agree :: "ProxyResponse \<Rightarrow> byte list \<Rightarrow> bool" where
  "agree r raw =
     (if resp_Base64 r then resp_Body r = EncodeToString raw
      else resp_Body r = string_of_bytes raw)"

text \<open>
  What a reader of an outbound envelope takes its content to be: the decoded body when
  the flag is set, the bytes of the body otherwise.
\<close>

definition content :: "ProxyResponse \<Rightarrow> byte list option" where
  "content r =
     (if resp_Base64 r then DecodeString (resp_Body r) else Some (bytes_of_string (resp_Body r)))"

section \<open>Inputs for running the model\<close>

text \<open>
  An envelope as the gateway sends it for a unary call, with the method, the flag and
  the body left open; a handler that returns at once; and a handler that sets a content
  type and writes the body of the request back.
\<close>

definition envelope :: "string \<Rightarrow> bool \<Rightarrow> string \<Rightarrow> unit ProxyRequest" where
  "envelope method b64 body =
     \<lparr>Resource = ''/{proxy+}'',
      Path = ''/greet.v1.GreetService/Greet'',
      HttpMethod = method,
      Headers = [(''X'', ''1'')],
      MultiValueHeaders = [(''X'', [''2'', ''3''])],
      QueryStringParameters = [],
      MultiValueQueryStringParameters = [],
      PathParameters = (),
      StageVariables = (),
      Body = body,
      Base64 = b64,
      RequestContext = []\<rparr>"

fun silent :: "(unit, string) Request \<Rightarrow> call list" where
  "silent req = []"

fun echo :: "string \<Rightarrow> (unit, string) Request \<Rightarrow> call list" where
  "echo ctype req = [Header_call (Add ''Content-Type'' ctype), Write_call (req_Body req)]"

section \<open>Decoding inverts encoding\<close>

text \<open>
  The decoder gives back every byte sequence from its encoding, so the two functions
  are the two directions of one code.
\<close>

lemma decodeMap_table: "list_all (\<lambda>i. decodeMap (encodeStd ! i) = of_nat i) [0..<64]"
  by code_simp

lemma and_63_less: "unat (w AND (0x3F :: 64 word)) < 64"
proof -
  have "w AND 0x3F \<le> 0x3F" by (rule word_and_le1)
  then show ?thesis by (simp add: word_le_nat_alt)
qed

lemma decodeMap_encode:
  "decodeMap (encode (w AND 0x3F)) = ucast (w AND (0x3F :: 64 word))"
proof -
  from decodeMap_table and_63_less[of w] have "decodeMap (encodeStd ! unat (w AND 0x3F)) = of_nat (unat (w AND 0x3F))"
    by (simp add: list_all_iff)
  then show ?thesis by (simp add: encode_def)
qed

lemma sextet_not_ff: "(ucast (w AND (0x3F :: 64 word)) :: byte) \<noteq> 0xFF"
proof
  assume "(ucast (w AND (0x3F :: 64 word)) :: byte) = 0xFF"
  then have "bit (ucast (w AND (0x3F :: 64 word)) :: byte) 7" by simp
  then have "bit (0x3F :: 64 word) 7" by (simp add: bit_simps)
  then show False by simp
qed

lemma mask6: "(0x3F :: 64 word) = mask 6" by (simp add: mask_eq_exp_minus_1)


lemma sextet_byte: "ucast (ucast (w AND (mask 6 :: 64 word)) :: byte) = w AND (mask 6 :: 64 word)"
  by (rule bit_word_eqI) (auto simp: bit_simps)

lemma sextet_piece: "push_bit n (drop_bit n w AND mask 6) = w AND push_bit n (mask 6 :: 64 word)"
  by (rule bit_word_eqI) (auto simp: bit_simps)


lemma byte_bit: "bit (a :: byte) n \<Longrightarrow> n < 8"
  using bit_imp_le_length[of a n] by simp

lemma sextet_masks: "push_bit 18 (mask 6) OR push_bit 12 (mask 6) OR push_bit 6 (mask 6) OR mask 6 = (mask 24 :: 64 word)"
  by (simp add: mask_eq_exp_minus_1)

lemma sextets_join:
  "push_bit 18 (drop_bit 18 w AND mask 6) OR push_bit 12 (drop_bit 12 w AND mask 6) OR
   push_bit 6 (drop_bit 6 w AND mask 6) OR (w AND mask 6) = w AND (mask 24 :: 64 word)"
proof -
  have "push_bit 18 (drop_bit 18 w AND mask 6) OR push_bit 12 (drop_bit 12 w AND mask 6) OR
   push_bit 6 (drop_bit 6 w AND mask 6) OR (w AND mask 6) =
    w AND (push_bit 18 (mask 6) OR push_bit 12 (mask 6) OR push_bit 6 (mask 6) OR mask 6)"
    by (simp only: sextet_piece bit.conj_disj_distrib)
  then show ?thesis by (simp only: sextet_masks)
qed

lemma packed_24:
  fixes a b c :: byte
  shows "(push_bit 16 (ucast a :: 64 word) OR push_bit 8 (ucast b) OR ucast c) AND mask 24
         = push_bit 16 (ucast a :: 64 word) OR push_bit 8 (ucast b) OR ucast c"
  by (rule bit_word_eqI) (auto simp: bit_simps dest: byte_bit)

lemma bytes_back:
  fixes a b c :: byte
  defines "val \<equiv> push_bit 16 (ucast a :: 64 word) OR push_bit 8 (ucast b) OR ucast c"
  shows "(ucast (drop_bit 16 val) :: byte) = a" "(ucast (drop_bit 8 val) :: byte) = b" "(ucast val :: byte) = c"
  unfolding val_def
  by (rule bit_word_eqI; auto simp: bit_simps dest: byte_bit)+


lemma assemble_four:
  fixes a b c :: byte
  defines "val \<equiv> push_bit 16 (ucast a :: 64 word) OR push_bit 8 (ucast b) OR ucast c"
  shows "assemble [sextet 18 val, sextet 12 val, sextet 6 val, sextet 0 val] = [a, b, c]"
proof -
  define J where "J = push_bit 18 (ucast (sextet 18 val) :: 64 word) OR
        push_bit 12 (ucast (sextet 12 val)) OR push_bit 6 (ucast (sextet 6 val)) OR
        ucast (sextet 0 val)"
  have "J = val AND mask 24"
    unfolding J_def sextet_def mask6 sextet_byte using sextets_join[of val] by simp
  also have "\<dots> = val" unfolding val_def by (rule packed_24)
  finally have J: "J = val" .
  have b: "(ucast (drop_bit 16 val) :: byte) = a" "(ucast (drop_bit 8 val) :: byte) = b"
    "(ucast val :: byte) = c"
    unfolding val_def by (rule bytes_back)+
  have "assemble [sextet 18 val, sextet 12 val, sextet 6 val, sextet 0 val] =
          [ucast (drop_bit 16 J), ucast (drop_bit 8 J), ucast J]"
    unfolding J_def by (simp add: assemble_def Let_def)
  then show ?thesis unfolding J by (simp only: b)
qed

lemma low_zero:
  fixes a b :: byte
  shows "sextet 0 (push_bit 16 (ucast a :: 64 word) OR push_bit 8 (ucast b)) = 0"
    and "sextet 6 (push_bit 16 (ucast a :: 64 word)) = 0"
    and "sextet 0 (push_bit 16 (ucast a :: 64 word)) = 0"
  unfolding sextet_def mask6
  by (rule bit_word_eqI; auto simp: bit_simps dest: byte_bit)+

lemma assemble_take:
  "assemble [s, t, u] = take 2 (assemble [s, t, u, 0])"
  "assemble [s, t] = take 1 (assemble [s, t, 0, 0])"
  by (simp_all add: assemble_def Let_def)

lemma assemble_three:
  fixes a b :: byte
  defines "val \<equiv> push_bit 16 (ucast a :: 64 word) OR push_bit 8 (ucast b)"
  shows "assemble [sextet 18 val, sextet 12 val, sextet 6 val] = [a, b]"
proof -
  have v: "val = push_bit 16 (ucast a :: 64 word) OR push_bit 8 (ucast b) OR ucast (0 :: byte)"
    by (simp add: val_def)
  have z: "sextet 0 val = 0" unfolding val_def by (rule low_zero)
  have "assemble [sextet 18 val, sextet 12 val, sextet 6 val, sextet 0 val] = [a, b, 0]"
    unfolding v by (rule assemble_four)
  then show ?thesis by (simp only: assemble_take z) simp
qed

lemma assemble_two:
  fixes a :: byte
  defines "val \<equiv> push_bit 16 (ucast a :: 64 word)"
  shows "assemble [sextet 18 val, sextet 12 val] = [a]"
proof -
  have v: "val = push_bit 16 (ucast a :: 64 word) OR push_bit 8 (ucast (0 :: byte)) OR ucast (0 :: byte)"
    by (simp add: val_def)
  have z: "sextet 6 val = 0" "sextet 0 val = 0" unfolding val_def by (rule low_zero)+
  have "assemble [sextet 18 val, sextet 12 val, sextet 6 val, sextet 0 val] = [a, 0, 0]"
    unfolding v by (rule assemble_four)
  then show ?thesis by (simp only: assemble_take z) simp
qed

lemma decodeMap_sextet_0: "decodeMap (encode (w AND 0x3F)) = sextet 0 w"
  by (simp add: decodeMap_encode sextet_def)

lemma sextet_valid: "sextet n w \<noteq> 0xFF"
  unfolding sextet_def by (rule sextet_not_ff)

lemma decodeMap_pad: "decodeMap CHR ''='' = 0xFF"
  by code_simp

lemma Decode_value_0:
  "sextet 0 w = s \<Longrightarrow> Decode dbuf (encode (w AND 0x3F) # src) =
     (if length dbuf = 3 then map_option (\<lambda>bs. assemble (dbuf @ [s]) @ bs) (Decode [] src)
      else Decode (dbuf @ [s]) src)"
  using sextet_valid[of 0 w] by (simp add: decodeMap_sextet_0 Let_def)

lemma Decode_pad: "Decode dbuf (CHR ''='' # src) = padding dbuf src"
  by (simp add: decodeMap_pad Let_def)

lemma sextet_drop: "sextet 0 (drop_bit n w) = sextet n w"
  by (simp add: sextet_def)

lemma Decode_two:
  "Decode [] [encode (drop_bit 18 w AND 0x3F), encode (drop_bit 12 w AND 0x3F), CHR ''='', CHR ''='']
     = Some (assemble [sextet 18 w, sextet 12 w])"
  by (simp add: Decode_value_0[OF refl] sextet_drop Decode_pad padding_def del: Decode.simps)

lemma Decode_three:
  "Decode [] [encode (drop_bit 18 w AND 0x3F), encode (drop_bit 12 w AND 0x3F),
              encode (drop_bit 6 w AND 0x3F), CHR ''='']
     = Some (assemble [sextet 18 w, sextet 12 w, sextet 6 w])"
  by (simp add: Decode_value_0[OF refl] sextet_drop Decode_pad padding_def del: Decode.simps)

lemma Decode_four:
  "Decode [] ([encode (drop_bit 18 w AND 0x3F), encode (drop_bit 12 w AND 0x3F),
              encode (drop_bit 6 w AND 0x3F), encode (w AND 0x3F)] @ src)
     = map_option (\<lambda>bs. assemble [sextet 18 w, sextet 12 w, sextet 6 w, sextet 0 w] @ bs)
         (Decode [] src)"
  by (simp add: Decode_value_0[OF refl] sextet_drop del: Decode.simps)

lemma Decode_EncodeToString: "Decode [] (EncodeToString bs) = Some bs"
proof (induction bs rule: EncodeToString.induct)
  case 1
  show ?case by simp
next
  case (2 a)
  show ?case
    unfolding EncodeToString.simps Let_def by (simp only: Decode_two assemble_two)
next
  case (3 a b)
  show ?case
    unfolding EncodeToString.simps Let_def by (simp only: Decode_three assemble_three)
next
  case (4 a b c src)
  then show ?case
    unfolding EncodeToString.simps Let_def
    by (simp only: Decode_four assemble_four) simp
qed


lemma DecodeString_EncodeToString: "DecodeString (EncodeToString bs) = Some bs"
  by (simp add: DecodeString_def Decode_EncodeToString)

section \<open>Properties of the buffer\<close>

lemma char_of_unat_of_char: "char_of (unat (of_char c :: byte)) = c"
proof -
  have "(of_char c :: byte) = of_nat (of_char c)"
    by (simp add: of_nat_of_char)
  then have "unat (of_char c :: byte) = of_char c mod 256"
    by (simp add: unat_of_nat)
  then show ?thesis by simp
qed

lemma string_of_bytes_of_string: "string_of_bytes (bytes_of_string s) = s"
  by (induction s) (simp_all add: string_of_bytes_def bytes_of_string_def char_of_unat_of_char)

lemma of_char_char_of_unat: "of_char (char_of (unat b)) = (b :: byte)"
proof -
  have "unat b < 256" using unsigned_less[of b, where 'a = nat] by simp
  have "(of_char (char_of (unat b)) :: byte) = of_nat (of_char (char_of (unat b)))"
    by (simp only: of_nat_of_char)
  also have "\<dots> = of_nat (unat b mod 256)" by simp
  also have "\<dots> = b" using \<open>unat b < 256\<close> by simp
  finally show ?thesis .
qed

lemma bytes_of_string_of_bytes: "bytes_of_string (string_of_bytes bs) = bs"
  by (induction bs) (simp_all add: string_of_bytes_def bytes_of_string_def of_char_char_of_unat)

lemma agree_content: "agree r raw \<Longrightarrow> content r = Some raw"
  by (auto simp: agree_def content_def DecodeString_EncodeToString bytes_of_string_of_bytes)

lemma perform_wroteHeader: "wroteHeader o' \<Longrightarrow> wroteHeader (perform c o')"
  by (cases c) (simp_all add: Header_def WriteHeader_def Write_def Buffer_Write_def Let_def split: option.splits)

lemma perform_statusCode:
  "wroteHeader o' \<Longrightarrow> statusCode o' \<noteq> 0 \<Longrightarrow> statusCode (perform c o') = statusCode o'"
  by (cases c) (simp_all add: Header_def WriteHeader_def Write_def Buffer_Write_def Let_def split: option.splits)

lemma ServeHTTP_committed:
  "wroteHeader o' \<Longrightarrow> statusCode o' \<noteq> 0 \<Longrightarrow>
     wroteHeader (ServeHTTP cs o') \<and> statusCode (ServeHTTP cs o') = statusCode o'"
proof (induction cs arbitrary: o')
  case Nil
  then show ?case by simp
next
  case (Cons c cs)
  from Cons.prems have "wroteHeader (perform c o')" "statusCode (perform c o') \<noteq> 0"
    by (simp_all add: perform_wroteHeader perform_statusCode)
  from Cons.IH[OF this] Cons.prems show ?case
    by (simp add: perform_statusCode)
qed

lemma ServeHTTP_append: "ServeHTTP (xs @ ys) o' = ServeHTTP ys (ServeHTTP xs o')"
  by (induction xs arbitrary: o') simp_all

lemma perform_headerOnly:
  "headerOnly c \<Longrightarrow> wroteHeader (perform c o') = wroteHeader o' \<and> statusCode (perform c o') = statusCode o'
     \<and> buf (perform c o') = buf o'"
  by (cases c) (simp_all add: Header_def split: option.splits)

lemma ServeHTTP_headerOnly:
  "list_all headerOnly cs \<Longrightarrow>
     wroteHeader (ServeHTTP cs o') = wroteHeader o' \<and> statusCode (ServeHTTP cs o') = statusCode o'
     \<and> buf (ServeHTTP cs o') = buf o'"
  by (induction cs arbitrary: o') (simp_all add: perform_headerOnly)

lemma Write_fresh:
  "\<not> wroteHeader o' \<Longrightarrow> wroteHeader (fst (Write bs o')) \<and> statusCode (fst (Write bs o')) = 200"
  by (simp add: Write_def WriteHeader_def Buffer_Write_def StatusOK_def Let_def)

lemma ServeHTTP_wroteHeader_iff:
  "wroteHeader (ServeHTTP cs o') \<longleftrightarrow> wroteHeader o' \<or> \<not> list_all headerOnly cs"
proof (induction cs arbitrary: o')
  case Nil
  then show ?case by simp
next
  case (Cons c cs)
  show ?case
  proof (cases c)
    case (Header_call f)
    then show ?thesis using Cons.IH[of "perform c o'"] perform_headerOnly[of c o'] by simp
  next
    case (WriteHeader_call code)
    then show ?thesis using Cons.IH[of "perform c o'"] by (simp add: WriteHeader_def)
  next
    case (Write_call bs)
    then show ?thesis using Cons.IH[of "perform c o'"]
      by (simp add: Write_def WriteHeader_def Buffer_Write_def Let_def)
  qed
qed

lemma buf_perform: "buf (perform c o') = buf o' @ written [c]"
  by (cases c) (simp_all add: Header_def WriteHeader_def Write_def Buffer_Write_def Let_def split: option.splits)

lemma written_Cons: "written (c # cs) = written [c] @ written cs"
  by (cases c) simp_all

lemma buf_ServeHTTP: "buf (ServeHTTP cs o') = buf o' @ written cs"
proof (induction cs arbitrary: o')
  case Nil
  then show ?case by simp
next
  case (Cons c cs)
  show ?case using Cons.IH[of "perform c o'"] written_Cons[of c cs] by (simp add: buf_perform)
qed

section \<open>Properties of handleLambdaReq\<close>

lemma handleLambdaReq_undecodable:
  "bodyBytes preq = None \<Longrightarrow>
   handleLambdaReq parse mux ctx preq =
     \<lparr>response = errorResponse 400 ''could not decode body'', err = None,
      logged = [Log ''could not decode body as base64''], served = []\<rparr>"
  by (simp add: handleLambdaReq_def StatusBadRequest_def)

lemma handleLambdaReq_refused:
  "bodyBytes preq = Some bs \<Longrightarrow>
   NewRequestWithContext parse ctx (HttpMethod preq) (Path preq) bs = Inl e \<Longrightarrow>
   handleLambdaReq parse mux ctx preq =
     \<lparr>response = errorResponse 400 ''could not create request, check url and http method'',
      err = None, logged = [Logf ''could not create request : %v'' e], served = []\<rparr>"
  by (simp add: handleLambdaReq_def StatusBadRequest_def)

lemma handleLambdaReq_served:
  "bodyBytes preq = Some bs \<Longrightarrow>
   NewRequestWithContext parse ctx (HttpMethod preq) (Path preq) bs = Inr req0 \<Longrightarrow>
   req = req0\<lparr>req_Header := addMultiValueHeaders (MultiValueHeaders preq)
                                (addHeaders (Headers preq) (req_Header req0))\<rparr> \<Longrightarrow>
   handleLambdaReq parse mux ctx preq =
     (if wroteHeader (ServeHTTP (mux req) Fresh)
      then \<lparr>response = ToLambdaProxyResponse (ServeHTTP (mux req) Fresh), err = None,
            logged = [], served = [req]\<rparr>
      else \<lparr>response = errorResponse 500 ''internal server error'', err = None,
            logged = [Log ''HTTP handler returned without writing a header or body''],
            served = [req]\<rparr>)"
  by (simp add: handleLambdaReq_def StatusInternalServerError_def Let_def)

lemma served_cases:
  "served (handleLambdaReq parse mux ctx preq) = [req] \<Longrightarrow>
   handleLambdaReq parse mux ctx preq =
     (if wroteHeader (ServeHTTP (mux req) Fresh)
      then \<lparr>response = ToLambdaProxyResponse (ServeHTTP (mux req) Fresh), err = None,
            logged = [], served = [req]\<rparr>
      else \<lparr>response = errorResponse 500 ''internal server error'', err = None,
            logged = [Log ''HTTP handler returned without writing a header or body''],
            served = [req]\<rparr>)"
proof (cases "bodyBytes preq")
  case None
  then show "served (handleLambdaReq parse mux ctx preq) = [req] \<Longrightarrow> ?thesis"
    by (simp add: handleLambdaReq_undecodable)
next
  case (Some bs)
  assume s: "served (handleLambdaReq parse mux ctx preq) = [req]"
  show ?thesis
  proof (cases "NewRequestWithContext parse ctx (HttpMethod preq) (Path preq) bs")
    case (Inl e)
    with Some s show ?thesis by (simp add: handleLambdaReq_refused)
  next
    case (Inr req0)
    define r where "r = req0\<lparr>req_Header := addMultiValueHeaders (MultiValueHeaders preq)
                                (addHeaders (Headers preq) (req_Header req0))\<rparr>"
    note h = handleLambdaReq_served[OF Some Inr r_def, of mux]
    from s h have "r = req" by (simp split: if_splits)
    with h show ?thesis by simp
  qed
qed

lemma NewRequestWithContext_Inr:
  "NewRequestWithContext parse ctx method url body = Inr req \<longleftrightarrow>
     validMethod (if method = [] then ''GET'' else method) \<and>
     (\<exists>c u. ctx = Some c \<and> parse url = Inr u \<and>
        req = \<lparr>req_ctx = c, req_Method = (if method = [] then ''GET'' else method), req_URL = u,
               req_Header = Map.empty, req_Body = body\<rparr>)"
  by (auto simp: NewRequestWithContext_def Let_def split: option.splits sum.splits)

lemma NewRequestWithContext_Inl:
  "(\<exists>e. NewRequestWithContext parse ctx method url body = Inl e) \<longleftrightarrow>
     \<not> validMethod (if method = [] then ''GET'' else method) \<or> ctx = None \<or>
     (\<exists>t. parse url = Inl t)"
  by (auto simp: NewRequestWithContext_def Let_def split: option.splits sum.splits)

lemma served_singleton: "length (served out) = 1 \<Longrightarrow> \<exists>req. served out = [req]"
  by (cases "served out") simp_all

section \<open>Properties of the header loops\<close>

lemma entry_empty: "entry Map.empty c = []"
  by (simp add: entry_def)

lemma entry_Add:
  "entry (Add k v h) c = entry h c @ (if CanonicalMIMEHeaderKey k = c then [v] else [])"
  by (simp add: Add_def entry_def Let_def)

lemma entry_addHeaders:
  "entry (addHeaders kvs h) c =
     entry h c @ map snd (filter (\<lambda>(k, v). CanonicalMIMEHeaderKey k = c) kvs)"
  by (induction kvs h rule: addHeaders.induct) (simp_all add: entry_Add)

lemma entry_addValues:
  "entry (addValues k s h) c = entry h c @ (if CanonicalMIMEHeaderKey k = c then s else [])"
  by (induction k s h rule: addValues.induct) (simp_all add: entry_Add)

lemma entry_addMultiValueHeaders:
  "entry (addMultiValueHeaders kss h) c =
     entry h c @ concat (map snd (filter (\<lambda>(k, s). CanonicalMIMEHeaderKey k = c) kss))"
  by (induction kss h rule: addMultiValueHeaders.induct) (simp_all add: entry_addValues)

lemma filter_key:
  "distinct (map fst kvs) \<Longrightarrow>
   map snd (filter (\<lambda>(k, v). k = key) kvs) = (case map_of kvs key of None \<Rightarrow> [] | Some v \<Rightarrow> [v])"
proof (induction kvs)
  case Nil
  then show ?case by simp
next
  case (Cons kv kvs)
  obtain k v where kv: "kv = (k, v)" by (cases kv)
  show ?case
  proof (cases "k = key")
    case True
    with Cons.prems kv have "key \<notin> fst ` set kvs" by simp
    then have "filter (\<lambda>(k, v). k = key) kvs = []"
      by (force simp: filter_empty_conv)
    with True kv show ?thesis by simp
  next
    case False
    with Cons kv show ?thesis by simp
  qed
qed

lemma filter_canonical:
  "\<forall>k \<in> fst ` set kvs. CanonicalMIMEHeaderKey k = CanonicalMIMEHeaderKey key \<longrightarrow> k = key \<Longrightarrow>
   filter (\<lambda>(k, v). CanonicalMIMEHeaderKey k = CanonicalMIMEHeaderKey key) kvs =
   filter (\<lambda>(k, v). k = key) kvs"
  by (rule filter_cong) (auto simp: image_iff)

lemma served_header:
  "served (handleLambdaReq parse mux ctx preq) = [req] \<Longrightarrow>
   req_Header req = addMultiValueHeaders (MultiValueHeaders preq) (addHeaders (Headers preq) Map.empty)"
  by (auto simp: handleLambdaReq_def Let_def NewRequestWithContext_def
      split: option.splits sum.splits if_splits)

section \<open>The claims\<close>

subsection \<open>The body of the request\<close>

text \<open>
  C1, with the condition under which a request is built. When the method is a token
  (or empty), the context is there and the URL parses, the handler is called with one
  request, whose body is the bytes of the body text when the flag is unset and the
  decoded bytes when the flag is set and the text decodes. When the flag is set and the
  text does not decode, the handler is not called and the result is the envelope of
  \<open>errorResponse\<close> with status 400.
\<close>

theorem request_body:
  "(\<not> Base64 preq \<and> validMethod (if HttpMethod preq = [] then ''GET'' else HttpMethod preq) \<and>
    ctx = Some c \<and> parse (Path preq) = Inr u \<longrightarrow>
      (\<exists>req. served (handleLambdaReq parse mux ctx preq) = [req] \<and>
             req_Body req = bytes_of_string (Body preq))) \<and>
   (Base64 preq \<and> DecodeString (Body preq) = Some bs \<and>
    validMethod (if HttpMethod preq = [] then ''GET'' else HttpMethod preq) \<and>
    ctx = Some c \<and> parse (Path preq) = Inr u \<longrightarrow>
      (\<exists>req. served (handleLambdaReq parse mux ctx preq) = [req] \<and> req_Body req = bs)) \<and>
   (Base64 preq \<and> DecodeString (Body preq) = None \<longrightarrow>
      served (handleLambdaReq parse mux ctx preq) = [] \<and>
      response (handleLambdaReq parse mux ctx preq) = errorResponse 400 ''could not decode body'' \<and>
      resp_Status (response (handleLambdaReq parse mux ctx preq)) = 400 \<and>
      err (handleLambdaReq parse mux ctx preq) = None)"
proof -
  have built: "\<exists>req. served (handleLambdaReq parse mux ctx preq) = [req] \<and> req_Body req = b"
    if "bodyBytes preq = Some b"
      "validMethod (if HttpMethod preq = [] then ''GET'' else HttpMethod preq)"
      "ctx = Some c" "parse (Path preq) = Inr u" for b
  proof -
    define req0 where "req0 = \<lparr>req_ctx = c,
        req_Method = (if HttpMethod preq = [] then ''GET'' else HttpMethod preq), req_URL = u,
        req_Header = Map.empty, req_Body = b\<rparr>"
    from that have n: "NewRequestWithContext parse ctx (HttpMethod preq) (Path preq) b = Inr req0"
      by (simp add: NewRequestWithContext_Inr req0_def)
    define req where "req = req0\<lparr>req_Header := addMultiValueHeaders (MultiValueHeaders preq)
                                (addHeaders (Headers preq) (req_Header req0))\<rparr>"
    from handleLambdaReq_served[OF that(1) n req_def, of mux]
    have "served (handleLambdaReq parse mux ctx preq) = [req]" by simp
    moreover have "req_Body req = b" by (simp add: req_def req0_def)
    ultimately show ?thesis by blast
  qed
  have undec: "served (handleLambdaReq parse mux ctx preq) = [] \<and>
      response (handleLambdaReq parse mux ctx preq) = errorResponse 400 ''could not decode body'' \<and>
      resp_Status (response (handleLambdaReq parse mux ctx preq)) = 400 \<and>
      err (handleLambdaReq parse mux ctx preq) = None"
    if "Base64 preq" "DecodeString (Body preq) = None"
  proof -
    from that have "bodyBytes preq = None" by (simp add: bodyBytes_def)
    then show ?thesis by (simp add: handleLambdaReq_undecodable errorResponse_def)
  qed
  have plain: "bodyBytes preq = Some (bytes_of_string (Body preq))" if "\<not> Base64 preq"
    using that by (simp add: bodyBytes_def)
  have coded: "bodyBytes preq = Some bs" if "Base64 preq" "DecodeString (Body preq) = Some bs"
    using that by (simp add: bodyBytes_def)
  from built[OF plain] built[OF coded] undec show ?thesis
    by blast
qed

theorem request_body_witness:
  "map req_Body (served (handleLambdaReq parse_path (echo ''text/plain'') (Some ())
      (envelope ''POST'' False ''hello''))) = [bytes_of_string ''hello''] \<and>
   map req_Body (served (handleLambdaReq parse_path (echo ''text/plain'') (Some ())
      (envelope ''POST'' True ''aGVsbG8=''))) = [bytes_of_string ''hello''] \<and>
   served (handleLambdaReq parse_path (echo ''text/plain'') (Some ())
      (envelope ''POST'' True ''not base64!'')) = [] \<and>
   resp_Status (response (handleLambdaReq parse_path (echo ''text/plain'') (Some ())
      (envelope ''POST'' True ''not base64!''))) = 400"
proof -
  let ?a = "envelope ''POST'' False ''hello''"
  let ?b = "envelope ''POST'' True ''aGVsbG8=''"
  let ?c = "envelope ''POST'' True ''not base64!''"
  have a: "\<not> Base64 ?a \<and> validMethod (if HttpMethod ?a = [] then ''GET'' else HttpMethod ?a) \<and>
           parse_path (Path ?a) = Inr ''/greet.v1.GreetService/Greet'' \<and> Body ?a = ''hello''"
    by code_simp
  have b: "Base64 ?b \<and> DecodeString (Body ?b) = Some (bytes_of_string ''hello'') \<and>
           validMethod (if HttpMethod ?b = [] then ''GET'' else HttpMethod ?b) \<and>
           parse_path (Path ?b) = Inr ''/greet.v1.GreetService/Greet''"
    by code_simp
  have c: "Base64 ?c \<and> DecodeString (Body ?c) = None" by code_simp
  from request_body[of ?a "Some ()" "()" parse_path "''/greet.v1.GreetService/Greet''" "echo ''text/plain''"] a
  have "map req_Body (served (handleLambdaReq parse_path (echo ''text/plain'') (Some ()) ?a))
          = [bytes_of_string ''hello'']"
    by auto
  moreover
  from request_body[of ?b "Some ()" "()" parse_path "''/greet.v1.GreetService/Greet''" "echo ''text/plain''"
         "bytes_of_string ''hello''"] b
  have "map req_Body (served (handleLambdaReq parse_path (echo ''text/plain'') (Some ()) ?b))
          = [bytes_of_string ''hello'']"
    by auto
  moreover
  from request_body[of ?c "Some ()" "()" parse_path _ "echo ''text/plain''"] c
  have "served (handleLambdaReq parse_path (echo ''text/plain'') (Some ()) ?c) = [] \<and>
        resp_Status (response (handleLambdaReq parse_path (echo ''text/plain'') (Some ()) ?c)) = 400"
    by auto
  ultimately show ?thesis by blast
qed

text \<open>
  C1 as it is stated, a request for every envelope whose flag is unset, does not hold:
  the method of this envelope has a space, \<open>NewRequestWithContext\<close> refuses it, and no
  request reaches the handler.
\<close>

theorem bad_method_counterexample:
  "\<not> Base64 (envelope ''BAD METHOD'' False ''hello'') \<and>
   served (handleLambdaReq parse_path (echo ''text/plain'') (Some ())
     (envelope ''BAD METHOD'' False ''hello'')) = [] \<and>
   resp_Status (response (handleLambdaReq parse_path (echo ''text/plain'') (Some ())
     (envelope ''BAD METHOD'' False ''hello''))) = 400"
proof -
  let ?out = "handleLambdaReq parse_path (echo ''text/plain'') (Some ())
     (envelope ''BAD METHOD'' False ''hello'')"
  have "length (served ?out) = 0" by code_simp
  then have "served ?out = []" by simp
  moreover have "\<not> Base64 (envelope ''BAD METHOD'' False ''hello'')" by code_simp
  moreover have "resp_Status (response ?out) = 400" by code_simp
  ultimately show ?thesis by blast
qed

subsection \<open>The encoding of the rendered body\<close>

text \<open>
  C2. For every buffer, the rendered envelope has the flag unset and the accumulated
  bytes as its text when the Content-Type header is exactly application/json; for every
  other value of the header, and when there is none, it has the flag set and the base64
  encoding of the accumulated bytes as its body.
\<close>

theorem ToLambdaProxyResponse_encoding:
  "(Get (header o') ''Content-Type'' = ''application/json'' \<longrightarrow>
      \<not> resp_Base64 (ToLambdaProxyResponse o') \<and>
      resp_Body (ToLambdaProxyResponse o') = string_of_bytes (buf o')) \<and>
   (Get (header o') ''Content-Type'' \<noteq> ''application/json'' \<longrightarrow>
      resp_Base64 (ToLambdaProxyResponse o') \<and>
      resp_Body (ToLambdaProxyResponse o') = EncodeToString (buf o')) \<and>
   (Values (header o') ''Content-Type'' = [] \<longrightarrow>
      resp_Base64 (ToLambdaProxyResponse o') \<and>
      resp_Body (ToLambdaProxyResponse o') = EncodeToString (buf o'))"
  by (auto simp: ToLambdaProxyResponse_def Let_def Get_def Values_def split: option.splits list.splits)

theorem ToLambdaProxyResponse_encoding_witness:
  \<open>resp_Base64 (ToLambdaProxyResponse (ServeHTTP
      [Header_call (Add ''Content-Type'' ''text/plain''), Write_call (bytes_of_string ''hello'')] Fresh)) \<and>
   resp_Body (ToLambdaProxyResponse (ServeHTTP
      [Header_call (Add ''Content-Type'' ''text/plain''), Write_call (bytes_of_string ''hello'')] Fresh))
     = ''aGVsbG8='' \<and>
   \<not> resp_Base64 (ToLambdaProxyResponse (ServeHTTP
      [Header_call (Add ''Content-Type'' ''application/json''), Write_call (bytes_of_string ''{"a":1}'')] Fresh)) \<and>
   resp_Body (ToLambdaProxyResponse (ServeHTTP
      [Header_call (Add ''Content-Type'' ''application/json''), Write_call (bytes_of_string ''{"a":1}'')] Fresh))
     = ''{"a":1}'' \<and>
   resp_Base64 (ToLambdaProxyResponse (ServeHTTP [Write_call (bytes_of_string ''hello'')] Fresh)) \<and>
   resp_Body (ToLambdaProxyResponse (ServeHTTP [Write_call (bytes_of_string ''hello'')] Fresh))
     = ''aGVsbG8=''\<close>
proof -
  let ?t = "ServeHTTP
      [Header_call (Add ''Content-Type'' ''text/plain''), Write_call (bytes_of_string ''hello'')] Fresh"
  let ?j = \<open>ServeHTTP
      [Header_call (Add ''Content-Type'' ''application/json''), Write_call (bytes_of_string ''{"a":1}'')] Fresh\<close>
  let ?n = "ServeHTTP [Write_call (bytes_of_string ''hello'')] Fresh"
  have t: "Get (header ?t) ''Content-Type'' \<noteq> ''application/json''" by code_simp
  have j: "Get (header ?j) ''Content-Type'' = ''application/json''" by code_simp
  have n: "Values (header ?n) ''Content-Type'' = []" by code_simp
  have e: "EncodeToString (buf ?t) = ''aGVsbG8=''" "EncodeToString (buf ?n) = ''aGVsbG8=''"
    by code_simp+
  have l: \<open>string_of_bytes (buf ?j) = ''{"a":1}''\<close> by code_simp
  from ToLambdaProxyResponse_encoding[of ?t] t e
  have "resp_Base64 (ToLambdaProxyResponse ?t) \<and> resp_Body (ToLambdaProxyResponse ?t) = ''aGVsbG8=''"
    by metis
  moreover from ToLambdaProxyResponse_encoding[of ?j] j l
  have \<open>\<not> resp_Base64 (ToLambdaProxyResponse ?j) \<and> resp_Body (ToLambdaProxyResponse ?j) = ''{"a":1}''\<close>
    by metis
  moreover from ToLambdaProxyResponse_encoding[of ?n] n e
  have "resp_Base64 (ToLambdaProxyResponse ?n) \<and> resp_Body (ToLambdaProxyResponse ?n) = ''aGVsbG8=''"
    by metis
  ultimately show ?thesis by blast
qed

subsection \<open>A handler that writes nothing\<close>

text \<open>
  C3, with the flag as \<open>errorResponse\<close> leaves it. When the one-shot flag is still
  unset after the handler has returned, \<open>handleLambdaReq\<close> returns status 500 with the
  body "internal server error", which is not empty, the base64 flag unset, and gives the
  logger exactly one message.
\<close>

theorem handler_wrote_nothing:
  assumes "served (handleLambdaReq parse mux ctx preq) = [req]"
    and "\<not> wroteHeader (ServeHTTP (mux req) Fresh)"
  shows "resp_Status (response (handleLambdaReq parse mux ctx preq)) = 500 \<and>
         \<not> resp_Base64 (response (handleLambdaReq parse mux ctx preq)) \<and>
         resp_Body (response (handleLambdaReq parse mux ctx preq)) = ''internal server error'' \<and>
         resp_Body (response (handleLambdaReq parse mux ctx preq)) \<noteq> [] \<and>
         logged (handleLambdaReq parse mux ctx preq) =
           [Log ''HTTP handler returned without writing a header or body''] \<and>
         length (logged (handleLambdaReq parse mux ctx preq)) = 1 \<and>
         err (handleLambdaReq parse mux ctx preq) = None"
  using served_cases[OF assms(1)] assms(2) by (simp add: errorResponse_def)

theorem handler_wrote_nothing_witness:
  "length (served (handleLambdaReq parse_path silent (Some ()) (envelope ''POST'' False ''hello''))) = 1 \<and>
   resp_Status (response (handleLambdaReq parse_path silent (Some ()) (envelope ''POST'' False ''hello''))) = 500 \<and>
   length (logged (handleLambdaReq parse_path silent (Some ()) (envelope ''POST'' False ''hello''))) = 1"
proof -
  let ?out = "handleLambdaReq parse_path silent (Some ()) (envelope ''POST'' False ''hello'')"
  have l: "length (served ?out) = 1" by code_simp
  then obtain req where s: "served ?out = [req]"
    using served_singleton by blast
  have n: "\<not> wroteHeader (ServeHTTP (silent req) Fresh)" by (simp add: Fresh_def)
  from handler_wrote_nothing[OF s n] l show ?thesis by blast
qed

text \<open>
  C3 as it is stated, with the base64 flag set, does not hold: the handler that returns
  at once is called, leaves the one-shot flag unset, and the envelope has its flag unset.
\<close>

theorem silent_handler_counterexample:
  "map (\<lambda>req. wroteHeader (ServeHTTP (silent req) Fresh))
     (served (handleLambdaReq parse_path silent (Some ()) (envelope ''POST'' False ''hello'')))
     = [False] \<and>
   \<not> resp_Base64 (response (handleLambdaReq parse_path silent (Some ())
                      (envelope ''POST'' False ''hello'')))"
  by code_simp

subsection \<open>Recoverable errors\<close>

text \<open>
  C4. \<open>handleLambdaReq\<close> never returns an error. A body that is announced as base64 and
  does not decode, a request that cannot be built (the method is not a token, the
  context is missing or the URL does not parse), and a handler that returns with the
  one-shot flag unset each give an envelope with status 400, 400 and 500, the one header
  Content-Type: text/plain, the base64 flag unset and a fixed diagnostic text as body,
  and each gives the logger exactly one message.
\<close>

theorem recoverable_errors:
  "err (handleLambdaReq parse mux ctx preq) = None \<and>
   (Base64 preq \<and> DecodeString (Body preq) = None \<longrightarrow>
      resp_Status (response (handleLambdaReq parse mux ctx preq)) = 400 \<and>
      \<not> resp_Base64 (response (handleLambdaReq parse mux ctx preq)) \<and>
      resp_Header (response (handleLambdaReq parse mux ctx preq)) =
        Some [''Content-Type'' \<mapsto> [''text/plain'']] \<and>
      resp_Body (response (handleLambdaReq parse mux ctx preq)) = ''could not decode body'' \<and>
      logged (handleLambdaReq parse mux ctx preq) = [Log ''could not decode body as base64''] \<and>
      length (logged (handleLambdaReq parse mux ctx preq)) = 1) \<and>
   (bodyBytes preq = Some bs \<and>
    (\<not> validMethod (if HttpMethod preq = [] then ''GET'' else HttpMethod preq) \<or> ctx = None \<or>
     (\<exists>t. parse (Path preq) = Inl t)) \<longrightarrow>
      resp_Status (response (handleLambdaReq parse mux ctx preq)) = 400 \<and>
      \<not> resp_Base64 (response (handleLambdaReq parse mux ctx preq)) \<and>
      resp_Header (response (handleLambdaReq parse mux ctx preq)) =
        Some [''Content-Type'' \<mapsto> [''text/plain'']] \<and>
      resp_Body (response (handleLambdaReq parse mux ctx preq)) =
        ''could not create request, check url and http method'' \<and>
      (\<exists>e. logged (handleLambdaReq parse mux ctx preq) =
             [Logf ''could not create request : %v'' e]) \<and>
      length (logged (handleLambdaReq parse mux ctx preq)) = 1) \<and>
   (served (handleLambdaReq parse mux ctx preq) = [req] \<and>
    \<not> wroteHeader (ServeHTTP (mux req) Fresh) \<longrightarrow>
      resp_Status (response (handleLambdaReq parse mux ctx preq)) = 500 \<and>
      \<not> resp_Base64 (response (handleLambdaReq parse mux ctx preq)) \<and>
      resp_Header (response (handleLambdaReq parse mux ctx preq)) =
        Some [''Content-Type'' \<mapsto> [''text/plain'']] \<and>
      resp_Body (response (handleLambdaReq parse mux ctx preq)) = ''internal server error'' \<and>
      logged (handleLambdaReq parse mux ctx preq) =
        [Log ''HTTP handler returned without writing a header or body''] \<and>
      length (logged (handleLambdaReq parse mux ctx preq)) = 1)"
proof -
  let ?out = "handleLambdaReq parse mux ctx preq"
  have "err ?out = None"
    by (simp add: handleLambdaReq_def Let_def split: option.splits sum.splits)
  moreover have "resp_Status (response ?out) = 400 \<and> \<not> resp_Base64 (response ?out) \<and>
      resp_Header (response ?out) = Some [''Content-Type'' \<mapsto> [''text/plain'']] \<and>
      resp_Body (response ?out) = ''could not decode body'' \<and>
      logged ?out = [Log ''could not decode body as base64''] \<and> length (logged ?out) = 1"
    if "Base64 preq" "DecodeString (Body preq) = None"
  proof -
    from that have "bodyBytes preq = None" by (simp add: bodyBytes_def)
    then show ?thesis by (simp add: handleLambdaReq_undecodable errorResponse_def)
  qed
  moreover have "resp_Status (response ?out) = 400 \<and> \<not> resp_Base64 (response ?out) \<and>
      resp_Header (response ?out) = Some [''Content-Type'' \<mapsto> [''text/plain'']] \<and>
      resp_Body (response ?out) = ''could not create request, check url and http method'' \<and>
      (\<exists>e. logged ?out = [Logf ''could not create request : %v'' e]) \<and>
      length (logged ?out) = 1"
    if b: "bodyBytes preq = Some bs"
      and r: "\<not> validMethod (if HttpMethod preq = [] then ''GET'' else HttpMethod preq) \<or>
        ctx = None \<or> (\<exists>t. parse (Path preq) = Inl t)"
  proof -
    from r obtain e where
      "NewRequestWithContext parse ctx (HttpMethod preq) (Path preq) bs = Inl e"
      using NewRequestWithContext_Inl[of parse ctx "HttpMethod preq" "Path preq" bs] by blast
    with b show ?thesis by (simp add: handleLambdaReq_refused errorResponse_def)
  qed
  moreover have "resp_Status (response ?out) = 500 \<and> \<not> resp_Base64 (response ?out) \<and>
      resp_Header (response ?out) = Some [''Content-Type'' \<mapsto> [''text/plain'']] \<and>
      resp_Body (response ?out) = ''internal server error'' \<and>
      logged ?out = [Log ''HTTP handler returned without writing a header or body''] \<and>
      length (logged ?out) = 1"
    if "served ?out = [req]" "\<not> wroteHeader (ServeHTTP (mux req) Fresh)"
    using served_cases[OF that(1)] that(2) by (simp add: errorResponse_def)
  ultimately show ?thesis by blast
qed

theorem recoverable_errors_witness:
  "resp_Status (response (handleLambdaReq parse_path (echo ''text/plain'') (Some ())
      (envelope ''POST'' True ''not base64!''))) = 400 \<and>
   resp_Body (response (handleLambdaReq parse_path (echo ''text/plain'') (Some ())
      (envelope ''POST'' True ''not base64!''))) = ''could not decode body'' \<and>
   length (logged (handleLambdaReq parse_path (echo ''text/plain'') (Some ())
      (envelope ''POST'' True ''not base64!''))) = 1 \<and>
   resp_Status (response (handleLambdaReq parse_path (echo ''text/plain'') (Some ())
      (envelope ''BAD METHOD'' False ''hello''))) = 400 \<and>
   resp_Body (response (handleLambdaReq parse_path (echo ''text/plain'') (Some ())
      (envelope ''BAD METHOD'' False ''hello''))) =
      ''could not create request, check url and http method'' \<and>
   length (logged (handleLambdaReq parse_path (echo ''text/plain'') (Some ())
      (envelope ''BAD METHOD'' False ''hello''))) = 1 \<and>
   resp_Status (response (handleLambdaReq parse_path silent (Some ())
      (envelope ''POST'' False ''hello''))) = 500 \<and>
   resp_Body (response (handleLambdaReq parse_path silent (Some ())
      (envelope ''POST'' False ''hello''))) = ''internal server error'' \<and>
   resp_Header (response (handleLambdaReq parse_path silent (Some ())
      (envelope ''POST'' False ''hello''))) = Some [''Content-Type'' \<mapsto> [''text/plain'']] \<and>
   length (logged (handleLambdaReq parse_path silent (Some ())
      (envelope ''POST'' False ''hello''))) = 1"
proof -
  let ?a = "envelope ''POST'' True ''not base64!''"
  let ?b = "envelope ''BAD METHOD'' False ''hello''"
  let ?c = "envelope ''POST'' False ''hello''"
  have a: "Base64 ?a \<and> DecodeString (Body ?a) = None" by code_simp
  have b: "bodyBytes ?b = Some (bytes_of_string ''hello'') \<and>
           \<not> validMethod (if HttpMethod ?b = [] then ''GET'' else HttpMethod ?b)"
    by code_simp
  have "length (served (handleLambdaReq parse_path silent (Some ()) ?c)) = 1" by code_simp
  then obtain req where s: "served (handleLambdaReq parse_path silent (Some ()) ?c) = [req]"
    using served_singleton by blast
  have c: "\<not> wroteHeader (ServeHTTP (silent req) Fresh)" by (simp add: Fresh_def)
  from recoverable_errors[of parse_path "echo ''text/plain''" "Some ()" ?a] a
  have "resp_Status (response (handleLambdaReq parse_path (echo ''text/plain'') (Some ()) ?a)) = 400 \<and>
        resp_Body (response (handleLambdaReq parse_path (echo ''text/plain'') (Some ()) ?a))
          = ''could not decode body'' \<and>
        length (logged (handleLambdaReq parse_path (echo ''text/plain'') (Some ()) ?a)) = 1"
    by blast
  moreover from recoverable_errors[of parse_path "echo ''text/plain''" "Some ()" ?b
      "bytes_of_string ''hello''"] b
  have "resp_Status (response (handleLambdaReq parse_path (echo ''text/plain'') (Some ()) ?b)) = 400 \<and>
        resp_Body (response (handleLambdaReq parse_path (echo ''text/plain'') (Some ()) ?b))
          = ''could not create request, check url and http method'' \<and>
        length (logged (handleLambdaReq parse_path (echo ''text/plain'') (Some ()) ?b)) = 1"
    by blast
  moreover from recoverable_errors[of parse_path silent "Some ()" ?c _ req] s c
  have "resp_Status (response (handleLambdaReq parse_path silent (Some ()) ?c)) = 500 \<and>
        resp_Body (response (handleLambdaReq parse_path silent (Some ()) ?c))
          = ''internal server error'' \<and>
        resp_Header (response (handleLambdaReq parse_path silent (Some ()) ?c))
          = Some [''Content-Type'' \<mapsto> [''text/plain'']] \<and>
        length (logged (handleLambdaReq parse_path silent (Some ()) ?c)) = 1"
    by blast
  ultimately show ?thesis by blast
qed

subsection \<open>The headers of the request\<close>

text \<open>
  C5. For every envelope and every header key, the values the request handed to the
  handler carries for the key are the values of the single-value map followed by the
  values of the multi-value map, each list in its order, none dropped and none merged.
  \<open>Add\<close> files a value under the canonical form of its key, so the entries of a map
  that belong to the key are those whose key has the same canonical form; when no other
  key of the two maps has the canonical form of the key, these are the one value of the
  single-value map followed by the list of the multi-value map.
\<close>

theorem header_merge:
  assumes "served (handleLambdaReq parse mux ctx preq) = [req]"
  shows "Values (Some (req_Header req)) key =
           map snd (filter (\<lambda>(k, v). CanonicalMIMEHeaderKey k = CanonicalMIMEHeaderKey key)
                      (Headers preq)) @
           concat (map snd (filter (\<lambda>(k, s). CanonicalMIMEHeaderKey k = CanonicalMIMEHeaderKey key)
                              (MultiValueHeaders preq))) \<and>
         (distinct (map fst (Headers preq)) \<and> distinct (map fst (MultiValueHeaders preq)) \<and>
          (\<forall>k \<in> fst ` set (Headers preq) \<union> fst ` set (MultiValueHeaders preq).
             CanonicalMIMEHeaderKey k = CanonicalMIMEHeaderKey key \<longrightarrow> k = key) \<longrightarrow>
          Values (Some (req_Header req)) key =
            (case map_of (Headers preq) key of None \<Rightarrow> [] | Some v \<Rightarrow> [v]) @
            (case map_of (MultiValueHeaders preq) key of None \<Rightarrow> [] | Some s \<Rightarrow> s))"
proof -
  have all: "Values (Some (req_Header req)) key =
           map snd (filter (\<lambda>(k, v). CanonicalMIMEHeaderKey k = CanonicalMIMEHeaderKey key)
                      (Headers preq)) @
           concat (map snd (filter (\<lambda>(k, s). CanonicalMIMEHeaderKey k = CanonicalMIMEHeaderKey key)
                              (MultiValueHeaders preq)))"
    using served_header[OF assms]
    by (simp add: Values_def entry_addMultiValueHeaders entry_addHeaders entry_empty)
  have "Values (Some (req_Header req)) key =
            (case map_of (Headers preq) key of None \<Rightarrow> [] | Some v \<Rightarrow> [v]) @
            (case map_of (MultiValueHeaders preq) key of None \<Rightarrow> [] | Some s \<Rightarrow> s)"
    if d: "distinct (map fst (Headers preq))" "distinct (map fst (MultiValueHeaders preq))"
      and u: "\<forall>k \<in> fst ` set (Headers preq) \<union> fst ` set (MultiValueHeaders preq).
             CanonicalMIMEHeaderKey k = CanonicalMIMEHeaderKey key \<longrightarrow> k = key"
  proof -
    from u have "filter (\<lambda>(k, v). CanonicalMIMEHeaderKey k = CanonicalMIMEHeaderKey key) (Headers preq)
        = filter (\<lambda>(k, v). k = key) (Headers preq)"
      by (intro filter_canonical) blast
    moreover from u have
      "filter (\<lambda>(k, s). CanonicalMIMEHeaderKey k = CanonicalMIMEHeaderKey key) (MultiValueHeaders preq)
        = filter (\<lambda>(k, s). k = key) (MultiValueHeaders preq)"
      by (intro filter_canonical) blast
    ultimately show ?thesis
      using all filter_key[OF d(1), of key] filter_key[OF d(2), of key]
      by (simp split: option.splits)
  qed
  with all show ?thesis by blast
qed

theorem header_merge_witness:
  "Headers (envelope ''POST'' False ''hello'') = [(''X'', ''1'')] \<and>
   MultiValueHeaders (envelope ''POST'' False ''hello'') = [(''X'', [''2'', ''3''])] \<and>
   map (\<lambda>req. Values (Some (req_Header req)) ''X'')
     (served (handleLambdaReq parse_path (echo ''text/plain'') (Some ())
        (envelope ''POST'' False ''hello''))) = [[''1'', ''2'', ''3'']]"
proof -
  let ?e = "envelope ''POST'' False ''hello''"
  let ?out = "handleLambdaReq parse_path (echo ''text/plain'') (Some ()) ?e"
  have h: "Headers ?e = [(''X'', ''1'')]" "MultiValueHeaders ?e = [(''X'', [''2'', ''3''])]"
    by (simp_all add: envelope_def)
  have "length (served ?out) = 1" by code_simp
  then obtain req where s: "served ?out = [req]"
    by (cases "served ?out") simp_all
  have d: "distinct (map fst (Headers ?e)) \<and> distinct (map fst (MultiValueHeaders ?e)) \<and>
          (\<forall>k \<in> fst ` set (Headers ?e) \<union> fst ` set (MultiValueHeaders ?e).
             CanonicalMIMEHeaderKey k = CanonicalMIMEHeaderKey ''X'' \<longrightarrow> k = ''X'')"
    by (simp add: h)
  from header_merge[OF s, of "''X''"] d
  have "Values (Some (req_Header req)) ''X'' =
          (case map_of (Headers ?e) ''X'' of None \<Rightarrow> [] | Some v \<Rightarrow> [v]) @
          (case map_of (MultiValueHeaders ?e) ''X'' of None \<Rightarrow> [] | Some s \<Rightarrow> s)"
    by blast
  then have "Values (Some (req_Header req)) ''X'' = [''1'', ''2'', ''3'']"
    by (simp add: h)
  with s h show ?thesis by simp
qed

subsection \<open>A write before any status\<close>

text \<open>
  C6. When the first call of the handler that is not a call of \<open>Header\<close> is a \<open>Write\<close>
  on the fresh buffer, the status of the buffer becomes 200 with that call, stays 200
  whatever the handler does afterwards, and is the status of the envelope that
  \<open>handleLambdaReq\<close> returns.
\<close>

theorem Write_commits_200:
  assumes "list_all headerOnly pre"
  shows "statusCode (ServeHTTP (pre @ [Write_call bs]) Fresh) = 200 \<and>
         statusCode (ServeHTTP (pre @ Write_call bs # rest) Fresh) = 200 \<and>
         resp_Status (ToLambdaProxyResponse (ServeHTTP (pre @ Write_call bs # rest) Fresh)) = 200 \<and>
         (served (handleLambdaReq parse mux ctx preq) = [req] \<and> mux req = pre @ Write_call bs # rest
            \<longrightarrow> resp_Status (response (handleLambdaReq parse mux ctx preq)) = 200)"
proof -
  let ?o = "ServeHTTP pre Fresh"
  let ?w = "fst (Write bs ?o)"
  from assms have "\<not> wroteHeader ?o"
    by (simp add: ServeHTTP_headerOnly Fresh_def)
  then have w: "wroteHeader ?w" "statusCode ?w = 200"
    by (simp_all add: Write_fresh)
  have one: "ServeHTTP (pre @ [Write_call bs]) Fresh = ?w"
    by (simp add: ServeHTTP_append)
  have all: "ServeHTTP (pre @ Write_call bs # rest) Fresh = ServeHTTP rest ?w"
    by (simp add: ServeHTTP_append)
  from w have c: "wroteHeader (ServeHTTP rest ?w)" "statusCode (ServeHTTP rest ?w) = 200"
    using ServeHTTP_committed[of ?w rest] by simp_all
  have r: "resp_Status (ToLambdaProxyResponse (ServeHTTP rest ?w)) = 200"
    using c by (simp add: ToLambdaProxyResponse_def Let_def)
  have "resp_Status (response (handleLambdaReq parse mux ctx preq)) = 200"
    if "served (handleLambdaReq parse mux ctx preq) = [req]" "mux req = pre @ Write_call bs # rest"
    using served_cases[OF that(1)] that(2) c r all by simp
  with w one all c r show ?thesis by simp
qed

theorem Write_commits_200_witness:
  "list_all headerOnly [Header_call (Add ''Content-Type'' ''text/plain'')] \<and>
   length (served (handleLambdaReq parse_path (echo ''text/plain'') (Some ())
             (envelope ''POST'' False ''hello''))) = 1 \<and>
   resp_Status (response (handleLambdaReq parse_path (echo ''text/plain'') (Some ())
                  (envelope ''POST'' False ''hello''))) = 200"
proof -
  let ?out = "handleLambdaReq parse_path (echo ''text/plain'') (Some ()) (envelope ''POST'' False ''hello'')"
  have h: "list_all headerOnly [Header_call (Add ''Content-Type'' ''text/plain'')]" by simp
  have l: "length (served ?out) = 1" by code_simp
  then obtain req where s: "served ?out = [req]"
    using served_singleton by blast
  have m: "echo ''text/plain'' req =
             [Header_call (Add ''Content-Type'' ''text/plain'')] @ Write_call (req_Body req) # []"
    by simp
  from Write_commits_200[OF h, of "req_Body req" "[]" parse_path "echo ''text/plain''" "Some ()"
         "envelope ''POST'' False ''hello''" req] s m
  have "resp_Status (response ?out) = 200" by blast
  with h l show ?thesis by blast
qed

subsection \<open>A second status\<close>

text \<open>
  C7. A second \<open>WriteHeader\<close> is ignored: on a buffer whose headers are committed
  \<open>WriteHeader\<close> changes nothing, and on a buffer whose headers are not, \<open>WriteHeader a\<close>
  followed by \<open>WriteHeader b\<close> leaves the status \<open>a\<close> in the buffer and in the envelope
  rendered from it, for every two codes.
\<close>

theorem WriteHeader_first_wins:
  "(wroteHeader o' \<longrightarrow> WriteHeader b o' = o') \<and>
   (\<not> wroteHeader o' \<longrightarrow>
      WriteHeader b (WriteHeader a o') = WriteHeader a o' \<and>
      statusCode (WriteHeader b (WriteHeader a o')) = a \<and>
      resp_Status (ToLambdaProxyResponse (WriteHeader b (WriteHeader a o'))) = a \<and>
      statusCode (ServeHTTP [WriteHeader_call a, WriteHeader_call b] o') = a)"
  by (simp add: WriteHeader_def ToLambdaProxyResponse_def Let_def)

theorem WriteHeader_first_wins_witness:
  "wroteHeader (WriteHeader 201 Fresh) \<and>
   WriteHeader 404 (WriteHeader 201 Fresh) = WriteHeader 201 Fresh \<and>
   \<not> wroteHeader Fresh \<and>
   statusCode (WriteHeader 404 (WriteHeader 201 Fresh)) = 201 \<and>
   resp_Status (ToLambdaProxyResponse (WriteHeader 404 (WriteHeader 201 Fresh))) = 201"
proof -
  have c: "wroteHeader (WriteHeader 201 Fresh)" and f: "\<not> wroteHeader Fresh"
    by (simp_all add: WriteHeader_def Fresh_def)
  from WriteHeader_first_wins[of "WriteHeader 201 Fresh" 404 0] c
  have "WriteHeader 404 (WriteHeader 201 Fresh) = WriteHeader 201 Fresh" by blast
  moreover from WriteHeader_first_wins[of Fresh 404 201] f
  have "statusCode (WriteHeader 404 (WriteHeader 201 Fresh)) = 201 \<and>
        resp_Status (ToLambdaProxyResponse (WriteHeader 404 (WriteHeader 201 Fresh))) = 201"
    by blast
  ultimately show ?thesis using c f by simp
qed

subsection \<open>Flag and body agree\<close>

text \<open>
  C8. Every envelope that \<open>handleLambdaReq\<close> returns agrees with its content, path by
  path. When the handler was called and wrote, the content is the bytes it wrote: the
  body is their base64 encoding when the flag is set and their text when the flag is
  unset, and a reader who follows the flag gets them back. When the handler was called
  and wrote nothing, when the body did not decode and when the request was refused, the
  flag is unset and the body is the diagnostic text of that path. There is no other
  path: at most one request is served, and none only when the body did not decode or
  the request was refused.
\<close>

theorem envelope_agreement:
  "(served (handleLambdaReq parse mux ctx preq) = [req] \<and>
    wroteHeader (ServeHTTP (mux req) Fresh) \<longrightarrow>
      agree (response (handleLambdaReq parse mux ctx preq)) (written (mux req)) \<and>
      (resp_Base64 (response (handleLambdaReq parse mux ctx preq)) \<longrightarrow>
         resp_Body (response (handleLambdaReq parse mux ctx preq))
           = EncodeToString (written (mux req))) \<and>
      (\<not> resp_Base64 (response (handleLambdaReq parse mux ctx preq)) \<longrightarrow>
         resp_Body (response (handleLambdaReq parse mux ctx preq))
           = string_of_bytes (written (mux req))) \<and>
      content (response (handleLambdaReq parse mux ctx preq)) = Some (written (mux req))) \<and>
   (served (handleLambdaReq parse mux ctx preq) = [req] \<and>
    \<not> wroteHeader (ServeHTTP (mux req) Fresh) \<longrightarrow>
      \<not> resp_Base64 (response (handleLambdaReq parse mux ctx preq)) \<and>
      resp_Body (response (handleLambdaReq parse mux ctx preq)) = ''internal server error'' \<and>
      agree (response (handleLambdaReq parse mux ctx preq))
        (bytes_of_string ''internal server error'')) \<and>
   (bodyBytes preq = None \<longrightarrow>
      \<not> resp_Base64 (response (handleLambdaReq parse mux ctx preq)) \<and>
      resp_Body (response (handleLambdaReq parse mux ctx preq)) = ''could not decode body'' \<and>
      agree (response (handleLambdaReq parse mux ctx preq))
        (bytes_of_string ''could not decode body'')) \<and>
   (bodyBytes preq = Some bs \<and>
    NewRequestWithContext parse ctx (HttpMethod preq) (Path preq) bs = Inl e \<longrightarrow>
      \<not> resp_Base64 (response (handleLambdaReq parse mux ctx preq)) \<and>
      resp_Body (response (handleLambdaReq parse mux ctx preq))
        = ''could not create request, check url and http method'' \<and>
      agree (response (handleLambdaReq parse mux ctx preq))
        (bytes_of_string ''could not create request, check url and http method'')) \<and>
   (served (handleLambdaReq parse mux ctx preq) = [] \<longrightarrow>
      bodyBytes preq = None \<or>
      (\<exists>bs e. bodyBytes preq = Some bs \<and>
         NewRequestWithContext parse ctx (HttpMethod preq) (Path preq) bs = Inl e)) \<and>
   length (served (handleLambdaReq parse mux ctx preq)) \<le> 1"
proof -
  let ?out = "handleLambdaReq parse mux ctx preq"
  have diag: "agree (errorResponse code msg) (bytes_of_string msg)" for code msg
    by (simp add: agree_def errorResponse_def string_of_bytes_of_string)
  have rendered: "agree (ToLambdaProxyResponse (ServeHTTP cs Fresh)) (written cs)" for cs
    by (simp add: agree_def ToLambdaProxyResponse_def Let_def buf_ServeHTTP Fresh_def)
  have wrote: "agree (response ?out) (written (mux req)) \<and>
      (resp_Base64 (response ?out) \<longrightarrow> resp_Body (response ?out) = EncodeToString (written (mux req))) \<and>
      (\<not> resp_Base64 (response ?out) \<longrightarrow> resp_Body (response ?out) = string_of_bytes (written (mux req))) \<and>
      content (response ?out) = Some (written (mux req))"
    if "served ?out = [req]" "wroteHeader (ServeHTTP (mux req) Fresh)"
  proof -
    from served_cases[OF that(1)] that(2)
    have "response ?out = ToLambdaProxyResponse (ServeHTTP (mux req) Fresh)" by simp
    with rendered[of "mux req"] have a: "agree (response ?out) (written (mux req))" by simp
    from a agree_content[OF a] show ?thesis by (simp add: agree_def split: if_splits)
  qed
  have unwritten: "\<not> resp_Base64 (response ?out) \<and>
      resp_Body (response ?out) = ''internal server error'' \<and>
      agree (response ?out) (bytes_of_string ''internal server error'')"
    if "served ?out = [req]" "\<not> wroteHeader (ServeHTTP (mux req) Fresh)"
  proof -
    from served_cases[OF that(1)] that(2)
    have "response ?out = errorResponse 500 ''internal server error''" by simp
    with diag[of 500 "''internal server error''"] show ?thesis by (simp add: errorResponse_def)
  qed
  have undec: "\<not> resp_Base64 (response ?out) \<and>
      resp_Body (response ?out) = ''could not decode body'' \<and>
      agree (response ?out) (bytes_of_string ''could not decode body'')"
    if "bodyBytes preq = None"
  proof -
    from that have "response ?out = errorResponse 400 ''could not decode body''"
      by (simp add: handleLambdaReq_undecodable)
    with diag[of 400 "''could not decode body''"] show ?thesis by (simp add: errorResponse_def)
  qed
  have refused: "\<not> resp_Base64 (response ?out) \<and>
      resp_Body (response ?out) = ''could not create request, check url and http method'' \<and>
      agree (response ?out)
        (bytes_of_string ''could not create request, check url and http method'')"
    if "bodyBytes preq = Some bs"
      "NewRequestWithContext parse ctx (HttpMethod preq) (Path preq) bs = Inl e"
  proof -
    from that have "response ?out =
        errorResponse 400 ''could not create request, check url and http method''"
      by (simp add: handleLambdaReq_refused)
    with diag[of 400 "''could not create request, check url and http method''"]
    show ?thesis by (simp add: errorResponse_def)
  qed
  have paths: "(served ?out = [] \<longrightarrow>
      bodyBytes preq = None \<or>
      (\<exists>bs e. bodyBytes preq = Some bs \<and>
         NewRequestWithContext parse ctx (HttpMethod preq) (Path preq) bs = Inl e)) \<and>
      length (served ?out) \<le> 1"
    by (simp add: handleLambdaReq_def Let_def split: option.splits sum.splits)
  from wrote unwritten undec refused paths show ?thesis by blast
qed

theorem envelope_agreement_witness:
  \<open>resp_Base64 (response (handleLambdaReq parse_path (echo ''text/plain'') (Some ())
      (envelope ''POST'' False ''hello''))) \<and>
   resp_Body (response (handleLambdaReq parse_path (echo ''text/plain'') (Some ())
      (envelope ''POST'' False ''hello''))) = ''aGVsbG8='' \<and>
   \<not> resp_Base64 (response (handleLambdaReq parse_path (echo ''application/json'') (Some ())
      (envelope ''POST'' False ''{"a":1}''))) \<and>
   resp_Body (response (handleLambdaReq parse_path (echo ''application/json'') (Some ())
      (envelope ''POST'' False ''{"a":1}''))) = ''{"a":1}'' \<and>
   resp_Body (response (handleLambdaReq parse_path silent (Some ())
      (envelope ''POST'' False ''hello''))) = ''internal server error'' \<and>
   resp_Body (response (handleLambdaReq parse_path (echo ''text/plain'') (Some ())
      (envelope ''POST'' True ''not base64!''))) = ''could not decode body'' \<and>
   resp_Body (response (handleLambdaReq parse_path (echo ''text/plain'') (Some ())
      (envelope ''BAD METHOD'' False ''hello''))) =
      ''could not create request, check url and http method'' \<and>
   served (handleLambdaReq parse_path (echo ''text/plain'') (Some ())
      (envelope ''BAD METHOD'' False ''hello'')) = []\<close>
proof -
  let ?t = "handleLambdaReq parse_path (echo ''text/plain'') (Some ()) (envelope ''POST'' False ''hello'')"
  let ?j = \<open>handleLambdaReq parse_path (echo ''application/json'') (Some ())
      (envelope ''POST'' False ''{"a":1}'')\<close>
  let ?s = "handleLambdaReq parse_path silent (Some ()) (envelope ''POST'' False ''hello'')"
  let ?u = "envelope ''POST'' True ''not base64!''"
  let ?m = "envelope ''BAD METHOD'' False ''hello''"
  \<comment> \<open>a handler that writes text/plain\<close>
  have "length (served ?t) = 1" by code_simp
  then obtain rt where st: "served ?t = [rt]" using served_singleton by blast
  have bt: "req_Body rt = bytes_of_string ''hello''"
  proof -
    have "map req_Body (served ?t) = [bytes_of_string ''hello'']" by code_simp
    with st show ?thesis by simp
  qed
  have wt: "wroteHeader (ServeHTTP (echo ''text/plain'' rt) Fresh)"
    by (simp add: ServeHTTP_wroteHeader_iff del: ServeHTTP.simps)
  have ft: "resp_Base64 (response ?t)" by code_simp
  have et: "EncodeToString (written (echo ''text/plain'' rt)) = ''aGVsbG8=''"
    unfolding echo.simps written.simps bt by code_simp
  from envelope_agreement[of parse_path "echo ''text/plain''" "Some ()"
      "envelope ''POST'' False ''hello''" rt] st wt ft et
  have t: "resp_Body (response ?t) = ''aGVsbG8=''" by metis
  \<comment> \<open>a handler that writes application/json\<close>
  have "length (served ?j) = 1" by code_simp
  then obtain rj where sj: "served ?j = [rj]" using served_singleton by blast
  have bj: \<open>req_Body rj = bytes_of_string ''{"a":1}''\<close>
  proof -
    have \<open>map req_Body (served ?j) = [bytes_of_string ''{"a":1}'']\<close> by code_simp
    with sj show ?thesis by simp
  qed
  have wj: "wroteHeader (ServeHTTP (echo ''application/json'' rj) Fresh)"
    by (simp add: ServeHTTP_wroteHeader_iff del: ServeHTTP.simps)
  have fj: "\<not> resp_Base64 (response ?j)" by code_simp
  have ej: \<open>string_of_bytes (written (echo ''application/json'' rj)) = ''{"a":1}''\<close>
    unfolding echo.simps written.simps bj by (simp add: string_of_bytes_of_string)
  from envelope_agreement[of parse_path "echo ''application/json''" "Some ()"
      \<open>envelope ''POST'' False ''{"a":1}''\<close> rj] sj wj fj ej
  have j: \<open>resp_Body (response ?j) = ''{"a":1}''\<close> by metis
  \<comment> \<open>a handler that writes nothing\<close>
  have "length (served ?s) = 1" by code_simp
  then obtain rs where ss: "served ?s = [rs]" using served_singleton by blast
  have ws: "\<not> wroteHeader (ServeHTTP (silent rs) Fresh)" by (simp add: Fresh_def)
  from envelope_agreement[of parse_path silent "Some ()" "envelope ''POST'' False ''hello''" rs] ss ws
  have s: "resp_Body (response ?s) = ''internal server error''" by blast
  \<comment> \<open>a body that does not decode\<close>
  have "bodyBytes ?u = None" by code_simp
  with envelope_agreement[of parse_path "echo ''text/plain''" "Some ()" ?u]
  have u: "resp_Body (response (handleLambdaReq parse_path (echo ''text/plain'') (Some ()) ?u))
             = ''could not decode body''" by blast
  \<comment> \<open>a method that is refused\<close>
  have "\<not> validMethod ''BAD METHOD''" by code_simp
  then have "bodyBytes ?m = Some (bytes_of_string ''hello'') \<and>
           NewRequestWithContext parse_path (Some ()) (HttpMethod ?m) (Path ?m)
             (bytes_of_string ''hello'') = Inl (InvalidMethod ''BAD METHOD'')"
    by (simp add: bodyBytes_def envelope_def NewRequestWithContext_def)
  with envelope_agreement[of parse_path "echo ''text/plain''" "Some ()" ?m _
      "bytes_of_string ''hello''" "InvalidMethod ''BAD METHOD''"]
  have m: "resp_Body (response (handleLambdaReq parse_path (echo ''text/plain'') (Some ()) ?m))
             = ''could not create request, check url and http method''" by blast
  have "length (served (handleLambdaReq parse_path (echo ''text/plain'') (Some ()) ?m)) = 0"
    by code_simp
  then have e: "served (handleLambdaReq parse_path (echo ''text/plain'') (Some ()) ?m) = []"
    by simp
  from ft t fj j s u m e show ?thesis by blast
qed

subsection \<open>Startup configuration\<close>

text \<open>
  C9, with the default of the switch. With \<open>mode\<close> the trimmed, lower-cased value of
  CONNECT_SERVER_MODE (empty when the variable is not set): a mode other than "lambda",
  "http" and the empty string is an error; the empty string and "http" select HTTP mode,
  where a missing CONNECT_SERVER_ADDR is an error and a present one gives a \<open>Config\<close>;
  "lambda" gives a \<open>Config\<close> without an address.
\<close>

theorem ConfigFromEnv_errors:
  "(ToLower (TrimSpace (Getenv env ''CONNECT_SERVER_MODE'')) \<notin> {''lambda'', [], ''http''} \<longrightarrow>
      ConfigFromEnv ToLower TrimSpace env =
        Inl (IncorrectMode (ToLower (TrimSpace (Getenv env ''CONNECT_SERVER_MODE''))))) \<and>
   (ToLower (TrimSpace (Getenv env ''CONNECT_SERVER_MODE'')) \<in> {[], ''http''} \<and>
    env ''CONNECT_SERVER_ADDR'' = None \<longrightarrow>
      ConfigFromEnv ToLower TrimSpace env = Inl MissingAddr) \<and>
   (ToLower (TrimSpace (Getenv env ''CONNECT_SERVER_MODE'')) \<in> {[], ''http''} \<and>
    env ''CONNECT_SERVER_ADDR'' = Some addr \<longrightarrow>
      ConfigFromEnv ToLower TrimSpace env = Inr \<lparr>Mode = HttpMode, HttpAddr = TrimSpace addr\<rparr>) \<and>
   (ToLower (TrimSpace (Getenv env ''CONNECT_SERVER_MODE'')) = ''lambda'' \<longrightarrow>
      ConfigFromEnv ToLower TrimSpace env = Inr \<lparr>Mode = LambdaMode, HttpAddr = []\<rparr>)"
  by (simp add: ConfigFromEnv_def LookupEnv_def Let_def)

theorem ConfigFromEnv_errors_witness:
  "ConfigFromEnv ascii_ToLower ascii_TrimSpace [''CONNECT_SERVER_MODE'' \<mapsto> ''grpc'']
     = Inl (IncorrectMode ''grpc'') \<and>
   ConfigFromEnv ascii_ToLower ascii_TrimSpace [''CONNECT_SERVER_MODE'' \<mapsto> '' HTTP '']
     = Inl MissingAddr \<and>
   ConfigFromEnv ascii_ToLower ascii_TrimSpace Map.empty = Inl MissingAddr \<and>
   ConfigFromEnv ascii_ToLower ascii_TrimSpace
     [''CONNECT_SERVER_MODE'' \<mapsto> ''http'', ''CONNECT_SERVER_ADDR'' \<mapsto> '' :8080'']
     = Inr \<lparr>Mode = HttpMode, HttpAddr = '':8080''\<rparr> \<and>
   ConfigFromEnv ascii_ToLower ascii_TrimSpace [''CONNECT_SERVER_MODE'' \<mapsto> ''Lambda'']
     = Inr \<lparr>Mode = LambdaMode, HttpAddr = []\<rparr>"
proof -
  let ?L = ascii_ToLower and ?T = ascii_TrimSpace
  let ?a = "[''CONNECT_SERVER_MODE'' \<mapsto> ''grpc'']"
  let ?b = "[''CONNECT_SERVER_MODE'' \<mapsto> '' HTTP '']"
  let ?c = "Map.empty :: environ"
  let ?d = "[''CONNECT_SERVER_MODE'' \<mapsto> ''http'', ''CONNECT_SERVER_ADDR'' \<mapsto> '' :8080'']"
  let ?e = "[''CONNECT_SERVER_MODE'' \<mapsto> ''Lambda'']"
  have m: "?L (?T (Getenv ?a ''CONNECT_SERVER_MODE'')) = ''grpc''"
    "?L (?T (Getenv ?b ''CONNECT_SERVER_MODE'')) = ''http''"
    "?L (?T (Getenv ?c ''CONNECT_SERVER_MODE'')) = []"
    "?L (?T (Getenv ?d ''CONNECT_SERVER_MODE'')) = ''http''"
    "?L (?T (Getenv ?e ''CONNECT_SERVER_MODE'')) = ''lambda''"
    "?T '' :8080'' = '':8080''"
    by code_simp+
  from ConfigFromEnv_errors[of ?L ?T ?a] m(1)
  have "ConfigFromEnv ?L ?T ?a = Inl (IncorrectMode ''grpc'')" by simp
  moreover from ConfigFromEnv_errors[of ?L ?T ?b] m(2)
  have "ConfigFromEnv ?L ?T ?b = Inl MissingAddr" by simp
  moreover from ConfigFromEnv_errors[of ?L ?T ?c] m(3)
  have "ConfigFromEnv ?L ?T ?c = Inl MissingAddr" by simp
  moreover from ConfigFromEnv_errors[of ?L ?T ?d "'' :8080''"] m(4) m(6)
  have "ConfigFromEnv ?L ?T ?d = Inr \<lparr>Mode = HttpMode, HttpAddr = '':8080''\<rparr>" by simp
  moreover from ConfigFromEnv_errors[of ?L ?T ?e] m(5)
  have "ConfigFromEnv ?L ?T ?e = Inr \<lparr>Mode = LambdaMode, HttpAddr = []\<rparr>" by simp
  ultimately show ?thesis by blast
qed

text \<open>
  C9 as it is stated, an error for a missing mode selector, does not hold: with
  CONNECT_SERVER_MODE not set and an address given the result is a \<open>Config\<close> in HTTP
  mode.
\<close>

theorem default_mode_counterexample:
  "LookupEnv [''CONNECT_SERVER_ADDR'' \<mapsto> '':8080''] ''CONNECT_SERVER_MODE'' = None \<and>
   ConfigFromEnv ascii_ToLower ascii_TrimSpace [''CONNECT_SERVER_ADDR'' \<mapsto> '':8080'']
     = Inr \<lparr>Mode = HttpMode, HttpAddr = '':8080''\<rparr>"
  by (simp add: ConfigFromEnv_def Getenv_def LookupEnv_def ascii_ToLower_def ascii_TrimSpace_def
      asciiSpace_def)

subsection \<open>The error envelope\<close>

text \<open>
  C10. For every status code and message, \<open>errorResponse\<close> gives an envelope whose
  base64 flag is false, whose status is the given code, whose header map has exactly one
  entry, Content-Type with the single value text/plain, and whose body is the message.
\<close>

theorem errorResponse_fields:
  "\<not> resp_Base64 (errorResponse status msg) \<and>
   resp_Status (errorResponse status msg) = status \<and>
   (\<exists>h. resp_Header (errorResponse status msg) = Some h \<and> dom h = {''Content-Type''} \<and>
        h ''Content-Type'' = Some [''text/plain'']) \<and>
   resp_Body (errorResponse status msg) = msg"
  by (simp add: errorResponse_def)

end
